theory Spec2Isabelle
  imports Main "HOL-Library.Char_ord" "HOL-Library.Sublist" "HOL-Library.AList" "HOL-Library.Word"
begin

section \<open>git-appraise: review commands, web handlers and the git repository layer\<close>

text \<open>
  A shallow embedding of the Go sources of git-appraise: the \<open>comment\<close> and \<open>accept\<close>
  commands (package \<open>commands\<close>), the HTTP handlers of package \<open>web\<close>, and the archive and
  synchronisation operations of \<open>GitRepo\<close> (package \<open>repository\<close>).

  Go's \<open>error\<close> values are built by \<open>errors.New\<close> and \<open>fmt.Errorf\<close> from a message; the model
  keeps the message. A function returning \<open>error\<close> returns \<open>error option\<close> (\<open>None\<close> is \<open>nil\<close>);
  a function returning \<open>(T, error)\<close> returns \<open>error + T\<close>.
\<close>

datatype error = Error string

subsection \<open>Strings\<close>

text \<open>
  \<open>strings.Split(s, sep)\<close> for a separator of one byte: the pieces between the separators,
  one more than there are separators, so the empty string gives one empty piece.
\<close>

fun split_char :: "char \<Rightarrow> string \<Rightarrow> string list" where
  "split_char sep [] = [[]]"
| "split_char sep (c # cs) =
     (if c = sep then [] # split_char sep cs
      else (c # hd (split_char sep cs)) # tl (split_char sep cs))"

subsection \<open>Package web: checkStringLooksLikeHash\<close>

text \<open>
  Go strings are byte sequences, and so is \<open>string\<close> here. \<open>len(s)\<close> counts bytes. The
  loop \<open>for _, c := range s\<close> visits runes; every rune that the test accepts is a single
  ASCII byte, and every byte from \<open>0x80\<close> on belongs to a rune (or to the replacement rune
  \<open>U+FFFD\<close>) above \<open>'f'\<close>, which the test rejects as it rejects the byte. So the loop over bytes
  returns what the loop over runes returns.
\<close>

definition maxHashLength :: nat where
  "maxHashLength = 40"

fun checkHashChars :: "string \<Rightarrow> error option" where
  "checkHashChars [] = None"
| "checkHashChars (c # cs) =
     (if ((c < CHR ''a'') \<or> (c > CHR ''f'')) \<and> ((c < CHR ''0'') \<or> (c > CHR ''9''))
      then Some (Error ''Invalid hash character'')
      else checkHashChars cs)"

definition checkStringLooksLikeHash :: "string \<Rightarrow> error option" where
  "checkStringLooksLikeHash s =
     (if length s > maxHashLength then Some (Error ''Invalid hash parameter'')
      else checkHashChars s)"

definition isLowerHex :: "char \<Rightarrow> bool" where
  "isLowerHex c = ((CHR ''0'' \<le> c \<and> c \<le> CHR ''9'') \<or> (CHR ''a'' \<le> c \<and> c \<le> CHR ''f''))"

subsection \<open>Package web: the branch and review handlers\<close>

text \<open>
  Of \<open>RepoDetails\<close> the handlers use the field \<open>Branches\<close> (a slice) and the method
  \<open>Update\<close>; the record keeps that field. \<open>'b\<close> is \<open>*BranchDetails\<close>.
\<close>

record 'b RepoDetails =
  Branches :: "'b list"

datatype Paths = ServePaths | StaticPaths

text \<open>
  A handler writes one response: \<open>http.Error\<close> sets the status code and sends the error's
  message as plain text; a successful handler sets the content type and writes the page,
  which sends status 200.
\<close>

record response =
  status :: nat
  contentType :: string
  body :: string

definition StatusOK :: nat where "StatusOK = 200"
definition StatusBadRequest :: nat where "StatusBadRequest = 400"
definition StatusInternalServerError :: nat where "StatusInternalServerError = 500"

fun ServeErrorTemplate :: "error \<Rightarrow> nat \<Rightarrow> response" where
  "ServeErrorTemplate (Error msg) code =
     \<lparr>status = code, contentType = ''text/plain; charset=utf-8'', body = msg @ ''\<newline>''\<rparr>"

text \<open>
  A slice index out of range and a \<open>nil\<close> pointer dereference panic; the panic is a value of
  the model, and a handler that panics writes no response of its own.
\<close>

datatype panic = IndexOutOfRange | NilDereference

definition index :: "'a list \<Rightarrow> 64 word \<Rightarrow> panic + 'a" where
  "index xs i = (if unat i < length xs then Inr (xs ! unat i) else Inl IndexOutOfRange)"

text \<open>
  The arguments a template is executed on: \<open>templateArgs\<close> of \<open>WriteBranchTemplate\<close> and of
  \<open>WriteReviewTemplate\<close>. \<open>'rd\<close> is \<open>*review.Review\<close>, \<open>'cd\<close> is
  \<open>*repository.CommitDetails\<close>, \<open>'th\<close> holds the two maps of comment threads that
  \<open>output.SeparateComments\<close> fills, and \<open>'df\<close> is \<open>[]repository.FileDiff\<close>.
\<close>

datatype ('b, 'rd, 'cd, 'th, 'df) templateArgs =
  BranchTemplateArgs "'b RepoDetails" "64 word" 'b
| ReviewTemplateArgs "'b RepoDetails" "64 word" 'b string 'cd "string list" 'th 'rd 'df

text \<open>
  What the handlers call: \<open>RepoDetails.Update\<close>, which returns the error of
  \<open>GetRepoStateHash\<close> or else, when the state of the repository has changed, rebuilds
  \<open>Branches\<close> in place from \<open>review.ListAll\<close>, which is not among the sources (here any
  function that may fail and returns the details it leaves); and, outside the sources,
  \<open>review.Get\<close> (whose review may be \<open>nil\<close>), the field
  \<open>Summary.Revision\<close> of a review, the repository's \<open>GetCommitDetails\<close>,
  \<open>GetCommitMessage\<close> and \<open>ParsedDiff1\<close>, \<open>output.SeparateComments\<close>, the embedded template
  texts, and the parsing and execution of a template by \<open>html/template\<close>, which yields the
  text written or an error.
\<close>

record ('b, 'rd, 'cd, 'th, 'df) webEnv =
  Update :: "'b RepoDetails \<Rightarrow> error option \<times> 'b RepoDetails"
  web_review_Get :: "string \<Rightarrow> error + 'rd option"
  Revision :: "'rd \<Rightarrow> string"
  GetCommitDetails :: "string \<Rightarrow> error + 'cd"
  GetCommitMessage :: "string \<Rightarrow> error + string"
  ParsedDiff1 :: "string \<Rightarrow> error + 'df"
  SeparateComments :: "'rd \<Rightarrow> 'th"
  branch_html :: string
  review_html :: string
  templateExecute :: "string \<Rightarrow> string \<Rightarrow> Paths \<Rightarrow> ('b, 'rd, 'cd, 'th, 'df) templateArgs \<Rightarrow> error + string"

text \<open>
  \<open>ServeTemplate(v, p, w, name, templ)\<close> parses and executes the template into a buffer and
  writes the buffer to \<open>w\<close>; the handlers pass a \<open>bytes.Buffer\<close> as \<open>w\<close>, whose \<open>Write\<close> does not
  fail. The model returns the text written.
\<close>

definition ServeTemplate ::
  "('b, 'rd, 'cd, 'th, 'df) webEnv \<Rightarrow> ('b, 'rd, 'cd, 'th, 'df) templateArgs \<Rightarrow> Paths \<Rightarrow> string \<Rightarrow> string
     \<Rightarrow> error + string"
where
  "ServeTemplate W v p name templ = templateExecute W name templ p v"

text \<open>
  Modelled from the Go library's documentation and code: \<open>strconv.ParseUint(s, 10, 32)\<close>.
  The empty string is a syntax error; the digits are read from the left, a character that
  is no decimal digit is a syntax error (base 10 takes no sign, prefix or underscore), and a
  value above \<open>2^32 - 1\<close> is a range error where it is first exceeded. The value never
  exceeds \<open>2^32 - 1\<close> before a digit is added, so the library's 64-bit arithmetic does not
  wrap and natural numbers compute the same.
\<close>

definition isDigit :: "char \<Rightarrow> bool" where
  "isDigit c = (CHR ''0'' \<le> c \<and> c \<le> CHR ''9'')"

definition digitValue :: "char \<Rightarrow> nat" where
  "digitValue c = of_char c - of_char CHR ''0''"

fun parseDigits :: "nat \<Rightarrow> string \<Rightarrow> error + nat" where
  "parseDigits n [] = Inr n"
| "parseDigits n (c # cs) =
     (if \<not> isDigit c then Inl (Error ''invalid syntax'')
      else if n * 10 + digitValue c > 2 ^ 32 - 1 then Inl (Error ''value out of range'')
      else parseDigits (n * 10 + digitValue c) cs)"

definition ParseUint32 :: "string \<Rightarrow> error + 64 word" where
  "ParseUint32 s =
     (if s = [] then Inl (Error ''invalid syntax'')
      else case parseDigits 0 s of Inl err \<Rightarrow> Inl err | Inr n \<Rightarrow> Inr (word_of_nat n))"

text \<open>
  \<open>int(branchNum)\<close> converts a \<open>uint64\<close> to \<open>int\<close>, which is 64 bits wide on the platforms the
  server is built for: the same bits read as a signed number. \<open>len\<close> is a non-negative
  \<open>int\<close>.
\<close>

definition int_of_uint64 :: "64 word \<Rightarrow> int" where
  "int_of_uint64 w = sint w"

definition WriteBranchTemplate ::
  "('b, 'rd, 'cd, 'th, 'df) webEnv \<Rightarrow> 'b RepoDetails \<Rightarrow> 64 word \<Rightarrow> Paths \<Rightarrow> panic + (error + string)"
where
  "WriteBranchTemplate W repoDetails branch p =
     (case index (Branches repoDetails) branch of
        Inl pnc \<Rightarrow> Inl pnc
      | Inr branchDetails \<Rightarrow>
          Inr (ServeTemplate W (BranchTemplateArgs repoDetails branch branchDetails) p
                 ''branch'' (branch_html W)))"

definition ServeBranchTemplate ::
  "('b, 'rd, 'cd, 'th, 'df) webEnv \<Rightarrow> 'b RepoDetails \<Rightarrow> (string \<Rightarrow> string) \<Rightarrow> panic + response"
where
  "ServeBranchTemplate W repoDetails0 query =
     (case Update W repoDetails0 of
        (Some err, repoDetails) \<Rightarrow> Inr (ServeErrorTemplate err StatusInternalServerError)
      | (None, repoDetails) \<Rightarrow>
          let branchParam = query ''branch''
          in if branchParam = []
             then Inr (ServeErrorTemplate (Error ''No branch specified'') StatusBadRequest)
             else
               case ParseUint32 branchParam of
                 Inl err \<Rightarrow> Inr (ServeErrorTemplate (Error ''Bad branch specified'') StatusBadRequest)
               | Inr branchNum \<Rightarrow>
                   if int (length (Branches repoDetails)) \<le> int_of_uint64 branchNum
                   then Inr (ServeErrorTemplate (Error ''Bad branch specified'') StatusBadRequest)
                   else
                     case WriteBranchTemplate W repoDetails branchNum ServePaths of
                       Inl pnc \<Rightarrow> Inl pnc
                     | Inr (Inl err) \<Rightarrow> Inr (ServeErrorTemplate err StatusInternalServerError)
                     | Inr (Inr page) \<Rightarrow>
                         Inr \<lparr>status = StatusOK, contentType = ''text/html; charset=utf-8'',
                              body = page\<rparr>)"

definition WriteReviewTemplate ::
  "('b, 'rd, 'cd, 'th, 'df) webEnv \<Rightarrow> 'b RepoDetails \<Rightarrow> 64 word \<Rightarrow> string \<Rightarrow> Paths
     \<Rightarrow> panic + (error + string)"
where
  "WriteReviewTemplate W repoDetails branch reviewID p =
     (case web_review_Get W reviewID of
        Inl err \<Rightarrow> Inr (Inl err)
      | Inr None \<Rightarrow> Inl NilDereference
      | Inr (Some reviewDetails) \<Rightarrow>
     (let commit = Revision W reviewDetails
      in case GetCommitDetails W commit of
           Inl err \<Rightarrow> Inr (Inl err)
         | Inr commitDetails \<Rightarrow>
        (case GetCommitMessage W commit of
           Inl err \<Rightarrow> Inr (Inl err)
         | Inr commitMessage \<Rightarrow>
        (case ParsedDiff1 W commit of
           Inl err \<Rightarrow> Inr (Inl err)
         | Inr diffs \<Rightarrow>
        (let threads = SeparateComments W reviewDetails
         in case index (Branches repoDetails) branch of
              Inl pnc \<Rightarrow> Inl pnc
            | Inr branchDetails \<Rightarrow>
                Inr (ServeTemplate W
                       (ReviewTemplateArgs repoDetails branch branchDetails commit commitDetails
                          (split_char CHR ''\<newline>'' commitMessage) threads reviewDetails diffs)
                       p ''review'' (review_html W)))))))"

definition ServeReviewTemplate ::
  "('b, 'rd, 'cd, 'th, 'df) webEnv \<Rightarrow> 'b RepoDetails \<Rightarrow> (string \<Rightarrow> string) \<Rightarrow> panic + response"
where
  "ServeReviewTemplate W repoDetails0 query =
     (case Update W repoDetails0 of
        (Some err, repoDetails) \<Rightarrow> Inr (ServeErrorTemplate err StatusInternalServerError)
      | (None, repoDetails) \<Rightarrow>
          let branchParam = query ''branch''
          in if branchParam = []
             then Inr (ServeErrorTemplate (Error ''No branch specified'') StatusBadRequest)
             else
               case ParseUint32 branchParam of
                 Inl err \<Rightarrow> Inr (ServeErrorTemplate (Error ''Bad branch specified'') StatusBadRequest)
               | Inr branchNum \<Rightarrow>
                   if int (length (Branches repoDetails)) \<le> int_of_uint64 branchNum
                   then Inr (ServeErrorTemplate (Error ''Bad branch specified'') StatusBadRequest)
                   else
                     let reviewParam = query ''review''
                     in if reviewParam = []
                        then Inr (ServeErrorTemplate (Error ''No review specified'') StatusBadRequest)
                        else
                          case checkStringLooksLikeHash reviewParam of
                            Some err \<Rightarrow> Inr (ServeErrorTemplate err StatusBadRequest)
                          | None \<Rightarrow>
                              case WriteReviewTemplate W repoDetails branchNum reviewParam ServePaths of
                                Inl pnc \<Rightarrow> Inl pnc
                              | Inr (Inl err) \<Rightarrow> Inr (ServeErrorTemplate err StatusInternalServerError)
                              | Inr (Inr page) \<Rightarrow>
                                  Inr \<lparr>status = StatusOK, contentType = ''text/html; charset=utf-8'',
                                       body = page\<rparr>)"

subsection \<open>The records of packages review and review/comment\<close>

text \<open>
  Modelled from the spec: the packages \<open>review\<close> and \<open>review/comment\<close> are not among the
  sources, only their uses are. The spec's data model gives a comment the fields
  timestamp, author, location \<open>{commit, path, range}\<close>, parent, description, the optional
  tri-state resolved and the signature, and a thread the fields hash, comment and
  children. A Go pointer field that may be \<open>nil\<close> is an \<open>option\<close>.
\<close>

record Range =
  StartLine :: nat
  StartColumn :: nat
  EndLine :: nat
  EndColumn :: nat

record Location =
  Commit :: string
  Path :: string
  Range :: "Range option"

record Comment =
  Timestamp :: string
  Author :: string
  Location :: "Location option"
  Parent :: string
  Description :: string
  Resolved :: "bool option"
  Signature :: string

datatype CommentThread =
  CommentThread (Hash: string) (ThreadComment: Comment) (Children: "CommentThread list")

subsection \<open>Package commands: what the commands call outside the sources\<close>

text \<open>
  The commands reach the repository through the interface \<open>repository.Repo\<close> and use the
  packages \<open>input\<close>, \<open>review\<close> and \<open>gpg\<close>, the helpers \<open>GetDate\<close> and \<open>FormatDate\<close> and the
  constant \<open>commentFilename\<close>, none of which is among the sources. Each is a field of the environment: the theorems hold for
  every environment. \<open>'rev\<close> is \<open>*review.Review\<close> (\<open>None\<close> for a \<open>nil\<close> review), \<open>'d\<close> is
  \<open>time.Time\<close>, and \<open>'st\<close> is the state of the repository, which only \<open>AddComment\<close> and
  \<open>AddDetachedComment\<close> change.
\<close>

record ('rev, 'd, 'st) env =
  FromFile :: "string \<Rightarrow> error + string"
  LaunchEditor :: "string \<Rightarrow> error + string"
  review_Get :: "string \<Rightarrow> error + 'rev option"
  review_GetCurrent :: "error + 'rev option"
  Comments :: "'rev \<Rightarrow> CommentThread list"
  GetHeadCommit :: "'rev \<Rightarrow> error + string"
  AddComment :: "'rev \<Rightarrow> Comment \<Rightarrow> 'st \<Rightarrow> error option \<times> 'st"
  ResolveRefCommit :: "string \<Rightarrow> error + string"
  GetDetachedComments :: "string \<Rightarrow> error + CommentThread list"
  AddDetachedComment :: "Comment \<Rightarrow> 'st \<Rightarrow> error option \<times> 'st"
  LocationCheck :: "Location \<Rightarrow> error option"
  GetUserEmail :: "error + string"
  GetUserSigningKey :: "error + string"
  GetDate :: "string \<Rightarrow> error + 'd option"
  Now :: "'d"
  FormatDate :: "'d \<Rightarrow> string"
  comment_New :: "string \<Rightarrow> string \<Rightarrow> Comment"
  DetachedSignature :: "string \<Rightarrow> Comment \<Rightarrow> error + string"
  commentFilename :: string

text \<open>
  Modelled from the spec: \<open>gpg.Sign(key, &c)\<close> (package \<open>review/gpg\<close> is not among the
  sources) produces the detached signature of the record and places it into the record's
  signature field; it fails when signing fails.
\<close>

definition gpg_Sign :: "('rev, 'd, 'st) env \<Rightarrow> string \<Rightarrow> Comment \<Rightarrow> error + Comment" where
  "gpg_Sign E key c =
     (case DetachedSignature E key c of
        Inl err \<Rightarrow> Inl err
      | Inr sig \<Rightarrow> Inr (c\<lparr>Signature := sig\<rparr>))"

text \<open>\<open>fmt.Errorf(prefix + "%v" + suffix, err)\<close>: the error's message between two texts.\<close>

fun wrapError :: "string \<Rightarrow> error \<Rightarrow> string \<Rightarrow> error" where
  "wrapError pre (Error msg) post = Error (pre @ msg @ post)"

subsection \<open>Package commands: comment\<close>

text \<open>
  The flags of the \<open>comment\<close> command are package variables that \<open>flag.Parse\<close> fills;
  \<open>validateArgs\<close> writes \<open>*commentMessage\<close>. The model passes the flags as a record and
  \<open>validateArgs\<close> returns the record it leaves behind.
\<close>

record commentFlags =
  commentMessageFile :: string
  commentMessage :: string
  commentParent :: string
  commentFile :: string
  commentDetached :: bool
  commentLgtm :: bool
  commentNmw :: bool
  commentSign :: bool
  commentDate :: string
  commentLocation :: Range

fun commentHashExists :: "string \<Rightarrow> CommentThread list \<Rightarrow> bool" where
  "commentHashExists hashToFind [] = False"
| "commentHashExists hashToFind (CommentThread h c children # threads) =
     (if h = hashToFind then True
      else if commentHashExists hashToFind children then True
      else commentHashExists hashToFind threads)"

definition validateArgs ::
  "('rev, 'd, 'st) env \<Rightarrow> commentFlags \<Rightarrow> string list \<Rightarrow> CommentThread list \<Rightarrow> error + commentFlags"
where
  "validateArgs E F args threads =
     (if commentLgtm F \<and> commentNmw F
      then Inl (Error ''You cannot combine the flags -lgtm and -nmw.'')
      else if commentParent F \<noteq> [] \<and> \<not> commentHashExists (commentParent F) threads
      then Inl (Error ''There is no matching parent comment.'')
      else
        case (if commentMessageFile F \<noteq> [] \<and> commentMessage F = []
              then (case FromFile E (commentMessageFile F) of
                      Inl err \<Rightarrow> Inl err
                    | Inr m \<Rightarrow> Inr (F\<lparr>commentMessage := m\<rparr>))
              else Inr F) of
          Inl err \<Rightarrow> Inl err
        | Inr F1 \<Rightarrow>
            (case (if commentMessageFile F1 = [] \<and> commentMessage F1 = []
                   then (case LaunchEditor E (commentFilename E) of
                           Inl err \<Rightarrow> Inl err
                         | Inr m \<Rightarrow> Inr (F1\<lparr>commentMessage := m\<rparr>))
                   else Inr F1) of
               Inl err \<Rightarrow> Inl err
             | Inr F2 \<Rightarrow>
                 if commentMessageFile F2 = [] \<and> commentMessage F2 = []
                 then Inl (Error ''No comment'')
                 else Inr F2))"

definition buildCommentFromFlags ::
  "('rev, 'd, 'st) env \<Rightarrow> commentFlags \<Rightarrow> string \<Rightarrow> error + Comment"
where
  "buildCommentFromFlags E F commentedUponCommit =
     (let location0 = \<lparr>Commit = commentedUponCommit, Path = [], Range = None\<rparr>;
          location1 = (if commentFile F \<noteq> [] then location0\<lparr>Path := commentFile F\<rparr> else location0);
          location = location1\<lparr>Range := Some (commentLocation F)\<rparr>
      in case LocationCheck E location of
           Some err \<Rightarrow> Inl (wrapError ''Unable to comment on the given location: '' err [])
         | None \<Rightarrow>
        (case GetUserEmail E of
           Inl err \<Rightarrow> Inl err
         | Inr userEmail \<Rightarrow>
        (case GetDate E (commentDate F) of
           Inl err \<Rightarrow> Inl err
         | Inr date0 \<Rightarrow>
        (let date = (case date0 of None \<Rightarrow> Now E | Some d \<Rightarrow> d);
             timestamp = FormatDate E date;
             c0 = comment_New E userEmail (commentMessage F);
             c1 = c0\<lparr>Location := Some location\<rparr>;
             c2 = c1\<lparr>Parent := commentParent F\<rparr>;
             c3 = (if length timestamp > 0 then c2\<lparr>Timestamp := timestamp\<rparr> else c2);
             c4 = (if commentLgtm F \<or> commentNmw F
                   then c3\<lparr>Resolved := Some (commentLgtm F)\<rparr> else c3)
         in if commentSign F
            then (case GetUserSigningKey E of
                    Inl err \<Rightarrow> Inl err
                  | Inr key \<Rightarrow> gpg_Sign E key c4)
            else Inr c4))))"

definition commentOnReview ::
  "('rev, 'd, 'st) env \<Rightarrow> commentFlags \<Rightarrow> string list \<Rightarrow> 'st \<Rightarrow> error option \<times> 'st"
where
  "commentOnReview E F args st =
     (if length args > 1
      then (Some (Error ''Only commenting on a single review is supported.''), st)
      else
        case (if length args = 1 then review_Get E (args ! 0) else review_GetCurrent E) of
          Inl err \<Rightarrow> (Some (wrapError ''Failed to load the review: '' err ''\<newline>''), st)
        | Inr None \<Rightarrow> (Some (Error ''There is no matching review.''), st)
        | Inr (Some r) \<Rightarrow>
            (case validateArgs E F args (Comments E r) of
               Inl err \<Rightarrow> (Some err, st)
             | Inr F' \<Rightarrow>
            (case GetHeadCommit E r of
               Inl err \<Rightarrow> (Some err, st)
             | Inr commentedUponCommit \<Rightarrow>
            (case buildCommentFromFlags E F' commentedUponCommit of
               Inl err \<Rightarrow> (Some err, st)
             | Inr c \<Rightarrow> AddComment E r c st))))"

definition commentOnPath ::
  "('rev, 'd, 'st) env \<Rightarrow> commentFlags \<Rightarrow> string list \<Rightarrow> 'st \<Rightarrow> error option \<times> 'st"
where
  "commentOnPath E F args st =
     (if commentFile F = []
      then (Some (Error ''You must specify the containing file for detached comments.''), st)
      else if length args > 1
      then (Some (Error ''Only commenting on a single location is supported.''), st)
      else
        let commentedUponRef = (if length args = 1 then args ! 0 else ''HEAD'')
        in case ResolveRefCommit E commentedUponRef of
             Inl err \<Rightarrow> (Some (wrapError ''Failed to resolve the comment location: '' err ''\<newline>''), st)
           | Inr commentedUponCommit \<Rightarrow>
          (case GetDetachedComments E (commentFile F) of
             Inl err \<Rightarrow> (Some err, st)
           | Inr commentThreads \<Rightarrow>
          (case validateArgs E F args commentThreads of
             Inl err \<Rightarrow> (Some err, st)
           | Inr F' \<Rightarrow>
          (case buildCommentFromFlags E F' commentedUponCommit of
             Inl err \<Rightarrow> (Some err, st)
           | Inr c \<Rightarrow> AddDetachedComment E c st))))"

text \<open>
  \<open>commentCmd.RunMethod\<close>, after \<open>commentFlagSet.Parse\<close>: \<open>F\<close> holds the parsed flags and
  \<open>args\<close> the remaining arguments.
\<close>

definition commentCmd_RunMethod ::
  "('rev, 'd, 'st) env \<Rightarrow> commentFlags \<Rightarrow> string list \<Rightarrow> 'st \<Rightarrow> error option \<times> 'st"
where
  "commentCmd_RunMethod E F args st =
     (if commentDetached F then commentOnPath E F args st else commentOnReview E F args st)"

subsection \<open>Package commands: accept\<close>

record acceptFlags =
  acceptMessageFile :: string
  acceptMessage :: string
  acceptDate :: string
  acceptSign :: bool

text \<open>\<open>acceptReview\<close>, after \<open>acceptFlagSet.Parse\<close>.\<close>

definition acceptReview ::
  "('rev, 'd, 'st) env \<Rightarrow> acceptFlags \<Rightarrow> string list \<Rightarrow> 'st \<Rightarrow> error option \<times> 'st"
where
  "acceptReview E F args st =
     (if length args > 1
      then (Some (Error ''Only accepting a single review is supported.''), st)
      else
        case (if length args = 1 then review_Get E (args ! 0) else review_GetCurrent E) of
          Inl err \<Rightarrow> (Some (wrapError ''Failed to load the review: '' err ''\<newline>''), st)
        | Inr None \<Rightarrow> (Some (Error ''There is no matching review.''), st)
        | Inr (Some r) \<Rightarrow>
        (case GetHeadCommit E r of
           Inl err \<Rightarrow> (Some err, st)
         | Inr acceptedCommit \<Rightarrow>
        (let location = \<lparr>Commit = acceptedCommit, Path = [], Range = None\<rparr>;
             resolved = True
         in case GetUserEmail E of
              Inl err \<Rightarrow> (Some err, st)
            | Inr userEmail \<Rightarrow>
           (case (if acceptMessageFile F \<noteq> [] \<and> acceptMessage F = []
                  then FromFile E (acceptMessageFile F)
                  else Inr (acceptMessage F)) of
              Inl err \<Rightarrow> (Some err, st)
            | Inr message \<Rightarrow>
           (case GetDate E (acceptDate F) of
              Inl err \<Rightarrow> (Some err, st)
            | Inr date0 \<Rightarrow>
           (let date = (case date0 of None \<Rightarrow> Now E | Some d \<Rightarrow> d);
                timestamp = FormatDate E date;
                c0 = comment_New E userEmail message;
                c1 = c0\<lparr>Location := Some location\<rparr>;
                c2 = c1\<lparr>Resolved := Some resolved\<rparr>;
                c3 = (if length timestamp > 0 then c2\<lparr>Timestamp := timestamp\<rparr> else c2)
            in if acceptSign F
               then (case GetUserSigningKey E of
                       Inl err \<Rightarrow> (Some err, st)
                     | Inr key \<Rightarrow>
                    (case gpg_Sign E key c3 of
                       Inl err \<Rightarrow> (Some err, st)
                     | Inr c \<Rightarrow> AddComment E r c st))
               else AddComment E r c3 st))))))"

subsection \<open>Predicates and sample values used by the theorems about the commands\<close>

text \<open>The hashes of a thread's comments, at every depth.\<close>

fun threadHashes :: "CommentThread \<Rightarrow> string set" where
  "threadHashes (CommentThread h c children) = insert h (\<Union> (threadHashes ` set children))"

definition knownCommentHash :: "string \<Rightarrow> CommentThread list \<Rightarrow> bool" where
  "knownCommentHash h threads = (\<exists>t. t \<in> set threads \<and> h \<in> threadHashes t)"

text \<open>
  The arguments \<open>validateArgs\<close> refuses: both \<open>-lgtm\<close> and \<open>-nmw\<close>; a parent that is given
  and is no comment of the threads; no \<open>-m\<close> message and the \<open>-F\<close> file cannot be read; no
  \<open>-m\<close> message, no \<open>-F\<close> file, and the editor fails or returns nothing.
\<close>

definition invalidCommentArgs ::
  "('rev, 'd, 'st) env \<Rightarrow> commentFlags \<Rightarrow> CommentThread list \<Rightarrow> bool"
where
  "invalidCommentArgs E F threads =
     ((commentLgtm F \<and> commentNmw F)
      \<or> (commentParent F \<noteq> [] \<and> \<not> knownCommentHash (commentParent F) threads)
      \<or> (commentMessage F = [] \<and> commentMessageFile F \<noteq> [] \<and> isl (FromFile E (commentMessageFile F)))
      \<or> (commentMessage F = [] \<and> commentMessageFile F = []
           \<and> (isl (LaunchEditor E (commentFilename E)) \<or> LaunchEditor E (commentFilename E) = Inr [])))"

text \<open>What \<open>accept\<close> promises of the comment it adds.\<close>

definition lgtmOnHead :: "Comment \<Rightarrow> string \<Rightarrow> bool" where
  "lgtmOnHead c head =
     (Resolved c = Some True \<and> Location c = Some \<lparr>Commit = head, Path = [], Range = None\<rparr>)"

text \<open>
  A sample environment: every review id names a review without comments whose head commit
  is the id, files and the editor give the empty text, and the repository state is the
  list of the comments added so far.
\<close>

definition exEnv :: "(string, nat, Comment list) env" where
  "exEnv =
     \<lparr>FromFile = (\<lambda>f. Inr []),
      LaunchEditor = (\<lambda>f. Inr []),
      review_Get = (\<lambda>h. Inr (Some h)),
      review_GetCurrent = Inr None,
      Comments = (\<lambda>r. []),
      GetHeadCommit = (\<lambda>r. Inr r),
      AddComment = (\<lambda>r c st. (None, st @ [c])),
      ResolveRefCommit = (\<lambda>r. Inr r),
      GetDetachedComments = (\<lambda>f. Inr []),
      AddDetachedComment = (\<lambda>c st. (None, st @ [c])),
      LocationCheck = (\<lambda>l. None),
      GetUserEmail = Inr ''me@example.com'',
      GetUserSigningKey = Inl (Error ''no signing key''),
      GetDate = (\<lambda>s. Inr None),
      Now = 0,
      FormatDate = (\<lambda>d. ''0''),
      comment_New = (\<lambda>a d. \<lparr>Timestamp = [], Author = a, Location = None, Parent = [],
                               Description = d, Resolved = None, Signature = []\<rparr>),
      DetachedSignature = (\<lambda>k c. Inl (Error ''no signing key'')),
      commentFilename = ''COMMENT''\<rparr>"

definition exFlags :: commentFlags where
  "exFlags =
     \<lparr>commentMessageFile = [], commentMessage = [], commentParent = [], commentFile = [],
      commentDetached = False, commentLgtm = False, commentNmw = False, commentSign = False,
      commentDate = [],
      commentLocation = \<lparr>StartLine = 0, StartColumn = 0, EndLine = 0, EndColumn = 0\<rparr>\<rparr>"

text \<open>
  Sample flags of \<open>accept\<close>, and the sample environment with a signing key.
\<close>

definition exAcceptFlags :: acceptFlags where
  "exAcceptFlags =
     \<lparr>acceptMessageFile = [], acceptMessage = ''fine'', acceptDate = [], acceptSign = False\<rparr>"

definition exSigningEnv :: "(string, nat, Comment list) env" where
  "exSigningEnv =
     exEnv\<lparr>GetUserSigningKey := Inr ''key'', DetachedSignature := (\<lambda>k c. Inr ''signed'')\<rparr>"

subsection \<open>Predicates and sample values used by the theorems about the handlers\<close>





definition exWeb :: "bool \<Rightarrow> (string, string, string, string, string) webEnv" where
  "exWeb updateFails =
     \<lparr>Update = (\<lambda>rd. (if updateFails then Some (Error ''cannot read the repository'') else None, rd)),
      web_review_Get = (\<lambda>h. Inr (Some h)),
      Revision = (\<lambda>r. r),
      GetCommitDetails = (\<lambda>c. Inr c),
      GetCommitMessage = (\<lambda>c. Inr c),
      ParsedDiff1 = (\<lambda>c. Inr c),
      SeparateComments = (\<lambda>r. r),
      branch_html = ''branch'',
      review_html = ''review'',
      templateExecute = (\<lambda>name templ p v. Inr templ)\<rparr>"

definition exQuery :: "string \<Rightarrow> string \<Rightarrow> string \<Rightarrow> string" where
  "exQuery b r k = (if k = ''branch'' then b else if k = ''review'' then r else [])"

definition exRepoDetails :: "string RepoDetails" where
  "exRepoDetails = \<lparr>Branches = [''main'', ''dev'']\<rparr>"

subsection \<open>Package repository: git as the code drives it\<close>

text \<open>
  \<open>GitRepo\<close> runs the git command-line tool in the repository's directory; what the
  commands read and write is the state of the model.

  \<^item> Commits are content addressed: a commit id names one commit object, made of the ids of
    its parents, its tree, its message and what git takes from its environment (author,
    committer and dates, the \<open>Stamp\<close>). The model identifies a commit id with the object it
    names, so ids are equal exactly when the objects are, and the parents of a commit are
    older objects. The fields carry the names of \<open>CommitDetails\<close>.
  \<^item> \<open>refs\<close> are the refs that \<open>git show-ref\<close> lists, each name once, with the commit it
    points to.
  \<^item> \<open>journal\<close> lists the git commands run so far that write to the repository, in the
    order the code runs them, successful or not. It is a record for the theorems; no
    command reads it.
\<close>

datatype commit =
  CommitObject (Parents: "commit list") (Tree: string) (Summary: string) (Stamp: string)

datatype gitCommand =
  UpdateRef string commit "commit option"
| CommitTree "commit list" string string
| NotesMerge string string string
| Fetch string "string list"

record git =
  refs :: "(string \<times> commit) list"
  journal :: "gitCommand list"

text \<open>
  What git does that the state above does not determine: the hex text of a commit id (the
  format \<open>%H\<close>), the identity and date git stamps a new commit with (\<open>None\<close> when it has
  none, and \<open>commit-tree\<close> fails), the refs after a fetch from a remote (or its failure),
  the notes commit that a notes merge with a strategy produces from the local notes
  commit, if any, and the remote one (or its failure), the output of
  \<open>ls-tree -r --name-only\<close> and of \<open>diff --name-only\<close> (or their failure), and the error
  with which git refuses to write a ref among the refs there are (\<open>None\<close> when it writes
  it): it cannot lock a ref whose name has an existing ref as a directory, or is the
  directory of one, whose name is not well formed, or whose lock is held. The theorems
  hold whatever these are.
\<close>

record world =
  hex :: "commit \<Rightarrow> string"
  identity :: "string option"
  fetched :: "string \<Rightarrow> string list \<Rightarrow> (string \<times> commit) list \<Rightarrow> error + (string \<times> commit) list"
  notesMerged :: "string \<Rightarrow> commit option \<Rightarrow> commit \<Rightarrow> error + commit"
  lsTreeNames :: "commit \<Rightarrow> error + string"
  diffNames :: "commit \<Rightarrow> commit \<Rightarrow> error + string"
  refRefused :: "(string \<times> commit) list \<Rightarrow> string \<Rightarrow> error option"

definition branchRefPrefix :: string where "branchRefPrefix = ''refs/heads/''"
definition notesRefPrefix :: string where "notesRefPrefix = ''refs/notes/''"
definition devtoolsRefPrefix :: string where "devtoolsRefPrefix = ''refs/devtools/''"
definition remoteDevtoolsRefPrefix :: string where "remoteDevtoolsRefPrefix = ''refs/remoteDevtools/''"

text \<open>\<open>strings.HasPrefix\<close> is \<open>prefix\<close> and \<open>strings.HasSuffix\<close> is \<open>suffix\<close>.\<close>

definition TrimPrefix :: "string \<Rightarrow> string \<Rightarrow> string" where
  "TrimPrefix s p = (if prefix p s then drop (length p) s else s)"

definition TrimSuffix :: "string \<Rightarrow> string \<Rightarrow> string" where
  "TrimSuffix s p = (if suffix p s then take (length s - length p) s else s)"

text \<open>The verb \<open>%q\<close> of \<open>fmt\<close>, for a text that needs no escapes.\<close>

definition quoted :: "string \<Rightarrow> string" where
  "quoted s = [CHR 0x22] @ s @ [CHR 0x22]"

text \<open>
  \<open>git show-ref --verify --quiet ref\<close> succeeds when the ref exists. \<open>HasRef\<close> and
  \<open>IsAncestor\<close> return an error only when git cannot be run at all, which the model leaves
  out: every other failure of the command is their answer \<open>false\<close>.
\<close>

definition HasRef :: "git \<Rightarrow> string \<Rightarrow> bool" where
  "HasRef s ref = (map_of (refs s) ref \<noteq> None)"

text \<open>
  \<open>git show -s --format=%H ref --\<close> prints the commit a ref points to and fails for a ref
  that does not exist; the error's message stands for what git writes to stderr. The code
  under study passes full ref names.
\<close>

definition GetCommitHash :: "git \<Rightarrow> string \<Rightarrow> error + commit" where
  "GetCommitHash s ref =
     (case map_of (refs s) ref of
        None \<Rightarrow> Inl (Error (''fatal: bad revision '' @ ref))
      | Some c \<Rightarrow> Inr c)"

text \<open>\<open>GetCommitDetails\<close> reads the same commit's tree, parents and other fields.\<close>

definition repo_GetCommitDetails :: "git \<Rightarrow> string \<Rightarrow> error + commit" where
  "repo_GetCommitDetails s ref =
     (case map_of (refs s) ref of
        None \<Rightarrow> Inl (Error (''fatal: bad revision '' @ ref))
      | Some c \<Rightarrow> Inr c)"

text \<open>
  \<open>git merge-base --is-ancestor a d\<close> succeeds when \<open>a\<close> is \<open>d\<close> or is reachable from \<open>d\<close>
  through parents.
\<close>

fun IsAncestor :: "commit \<Rightarrow> commit \<Rightarrow> bool" where
  "IsAncestor ancestor (CommitObject ps t m st) =
     (ancestor = CommitObject ps t m st \<or> list_ex (IsAncestor ancestor) ps)"

text \<open>
  \<open>git commit-tree -p p1 ... -m message tree\<close> creates the commit object and prints its id.
\<close>

definition commit_tree ::
  "world \<Rightarrow> commit list \<Rightarrow> string \<Rightarrow> string \<Rightarrow> git \<Rightarrow> (error + commit) \<times> git"
where
  "commit_tree W ps message tree s =
     (let s' = s\<lparr>journal := journal s @ [CommitTree ps message tree]\<rparr>
      in case identity W of
           None \<Rightarrow> (Inl (Error ''fatal: unable to auto-detect email address''), s')
         | Some st \<Rightarrow> (Inr (CommitObject ps tree message st), s'))"

text \<open>
  \<open>git update-ref ref new [old]\<close> points the ref to \<open>new\<close>. With \<open>old\<close> given it fails when the
  ref does not point to \<open>old\<close> now; with or without \<open>old\<close> it fails when git refuses to write
  the ref. A failed \<open>update-ref\<close> leaves the refs as they are.
\<close>

definition update_ref ::
  "world \<Rightarrow> string \<Rightarrow> commit \<Rightarrow> commit option \<Rightarrow> git \<Rightarrow> error option \<times> git"
where
  "update_ref W ref new old s =
     (let s' = s\<lparr>journal := journal s @ [UpdateRef ref new old]\<rparr>
      in if (case old of None \<Rightarrow> False | Some expected \<Rightarrow> map_of (refs s) ref \<noteq> Some expected)
         then (Some (Error (''fatal: update_ref failed for ref '' @ ref)), s')
         else
           case refRefused W (refs s) ref of
             Some err \<Rightarrow> (Some err, s')
           | None \<Rightarrow> (None, s'\<lparr>refs := AList.update ref new (refs s)\<rparr>))"

text \<open>
  \<open>git notes --ref localRef merge remoteRef -s strategy\<close> merges the notes of the remote
  ref into the local notes ref.
\<close>

definition notes_merge :: "world \<Rightarrow> string \<Rightarrow> string \<Rightarrow> string \<Rightarrow> git \<Rightarrow> error option \<times> git" where
  "notes_merge W localRef remoteRef strategy s =
     (let s' = s\<lparr>journal := journal s @ [NotesMerge localRef remoteRef strategy]\<rparr>
      in case map_of (refs s) remoteRef of
           None \<Rightarrow> (Some (Error (''fatal: bad revision '' @ remoteRef)), s')
         | Some theirs \<Rightarrow>
             (case notesMerged W strategy (map_of (refs s) localRef) theirs of
                Inl err \<Rightarrow> (Some err, s')
              | Inr merged \<Rightarrow> (None, s'\<lparr>refs := AList.update localRef merged (refs s)\<rparr>)))"

text \<open>
  \<open>git show-ref\<close> lists every ref with its commit, one per line, and fails when there is
  none. \<open>getRefHashes\<close> splits each line into the hash and the name; the model reads the
  pairs.
\<close>

definition show_ref :: "git \<Rightarrow> error + (string \<times> commit) list" where
  "show_ref s = (if refs s = [] then Inl (Error ''Error running git command: show-ref'') else Inr (refs s))"

subsection \<open>Package repository: archives\<close>

definition mergeArchives :: "world \<Rightarrow> string \<Rightarrow> string \<Rightarrow> git \<Rightarrow> error option \<times> git" where
  "mergeArchives W archive remoteArchive s =
     (if \<not> HasRef s remoteArchive then (None, s)
      else
        case GetCommitHash s remoteArchive of
          Inl err \<Rightarrow> (Some err, s)
        | Inr remoteHash \<Rightarrow>
            if \<not> HasRef s archive then update_ref W archive remoteHash None s
            else
              case GetCommitHash s archive of
                Inl err \<Rightarrow> (Some err, s)
              | Inr archiveHash \<Rightarrow>
                  if IsAncestor archiveHash remoteHash
                  then update_ref W archive remoteHash (Some archiveHash) s
                  else
                    case repo_GetCommitDetails s remoteArchive of
                      Inl err \<Rightarrow> (Some err, s)
                    | Inr refDetails \<Rightarrow>
                        (case commit_tree W [remoteHash, archiveHash]
                                ''Merge local and remote archives'' (Tree refDetails) s of
                           (Inl err, s1) \<Rightarrow> (Some err, s1)
                         | (Inr newArchiveHash, s1) \<Rightarrow>
                             update_ref W archive newArchiveHash (Some archiveHash) s1))"

text \<open>
  In \<open>ArchiveRef\<close> the variable \<open>archiveHash\<close> is the empty string when the archive cannot be
  read; it is \<open>None\<close> here. \<open>commitTreeArgs\<close> gets \<open>-p archiveHash\<close> only when there is one,
  and \<open>updateRefArgs\<close> the old value likewise.
\<close>

definition ArchiveRef :: "world \<Rightarrow> string \<Rightarrow> string \<Rightarrow> git \<Rightarrow> error option \<times> git" where
  "ArchiveRef W ref archive s =
     (case GetCommitHash s ref of
        Inl err \<Rightarrow> (Some err, s)
      | Inr refHash \<Rightarrow>
     (case repo_GetCommitDetails s ref of
        Inl err \<Rightarrow> (Some err, s)
      | Inr refDetails \<Rightarrow>
     (let archiveHash = (case GetCommitHash s archive of Inl err \<Rightarrow> None | Inr h \<Rightarrow> Some h)
      in if (case archiveHash of None \<Rightarrow> False | Some h \<Rightarrow> IsAncestor refHash h)
         then (None, s)
         else
           let parents = (case archiveHash of None \<Rightarrow> [] | Some h \<Rightarrow> [h]) @ [refHash]
           in case commit_tree W parents (''Archive '' @ hex W refHash) (Tree refDetails) s of
                (Inl err, s1) \<Rightarrow> (Some err, s1)
              | (Inr newArchiveHash, s1) \<Rightarrow> update_ref W archive newArchiveHash archiveHash s1)))"

text \<open>
  \<open>SetRef\<close>: \<open>previousCommitHash\<close> is the empty string when the caller expects no old value;
  it is \<open>None\<close> here.
\<close>

definition SetRef ::
  "world \<Rightarrow> string \<Rightarrow> commit \<Rightarrow> commit option \<Rightarrow> git \<Rightarrow> error option \<times> git"
where
  "SetRef W ref newCommitHash previousCommitHash s =
     update_ref W ref newCommitHash previousCommitHash s"

subsection \<open>Package repository: pulling notes and archives\<close>

text \<open>\<open>git fetch remote refspecs...\<close>, run with the terminal of the tool.\<close>

definition repo_Fetch :: "world \<Rightarrow> string \<Rightarrow> string list \<Rightarrow> git \<Rightarrow> error option \<times> git" where
  "repo_Fetch W remote refspecs s =
     (let s' = s\<lparr>journal := journal s @ [Fetch remote refspecs]\<rparr>
      in case fetched W remote refspecs (refs s) of
           Inl err \<Rightarrow> (Some err, s')
         | Inr rs \<Rightarrow> (None, s'\<lparr>refs := rs\<rparr>))"

text \<open>
  \<open>getRefHashes\<close> returns a Go map from ref names to hashes. The model keeps the pairs in a
  list, each name once as \<open>show-ref\<close> prints them. Go ranges over a map in an order it does
  not specify; the loops of the model range in the order of the list, which is the order
  of the refs in the state and is arbitrary.
\<close>

definition getRefHashes :: "git \<Rightarrow> string \<Rightarrow> error + (string \<times> commit) list" where
  "getRefHashes s refPattern =
     (if \<not> suffix ''/*'' refPattern
      then Inl (Error (''unsupported ref pattern '' @ quoted refPattern))
      else
        let refPrefix = TrimSuffix refPattern ''*''
        in case show_ref s of
             Inl err \<Rightarrow> Inl err
           | Inr lines \<Rightarrow> Inr (filter (\<lambda>(name, h). prefix refPrefix name) lines))"

definition getRemoteNotesRef :: "string \<Rightarrow> string \<Rightarrow> string" where
  "getRemoteNotesRef remote localNotesRef =
     (let relativeNotesRef = TrimPrefix localNotesRef notesRefPrefix
      in notesRefPrefix @ ''remotes/'' @ remote @ ''/'' @ relativeNotesRef)"

definition getLocalNotesRef :: "string \<Rightarrow> string \<Rightarrow> string" where
  "getLocalNotesRef remote remoteNotesRef =
     (let relativeNotesRef = TrimPrefix remoteNotesRef (notesRefPrefix @ ''remotes/'' @ remote @ ''/'')
      in notesRefPrefix @ relativeNotesRef)"

definition getRemoteDevtoolsRef :: "string \<Rightarrow> string \<Rightarrow> string" where
  "getRemoteDevtoolsRef remote devtoolsRefPattern =
     (let relativeRef = TrimPrefix devtoolsRefPattern devtoolsRefPrefix
      in remoteDevtoolsRefPrefix @ remote @ ''/'' @ relativeRef)"

definition getLocalDevtoolsRef :: "string \<Rightarrow> string \<Rightarrow> string" where
  "getLocalDevtoolsRef remote remoteDevtoolsRef =
     (let relativeRef = TrimPrefix remoteDevtoolsRef (remoteDevtoolsRefPrefix @ remote @ ''/'')
      in devtoolsRefPrefix @ relativeRef)"

text \<open>The loop of \<open>MergeNotes\<close> over the names of the remote refs.\<close>

fun MergeNotes_loop :: "world \<Rightarrow> string \<Rightarrow> string list \<Rightarrow> git \<Rightarrow> error option \<times> git" where
  "MergeNotes_loop W remote [] s = (None, s)"
| "MergeNotes_loop W remote (remoteRef # rest) s =
     (let localRef = getLocalNotesRef remote remoteRef
      in case notes_merge W localRef remoteRef ''cat_sort_uniq'' s of
           (Some err, s1) \<Rightarrow> (Some err, s1)
         | (None, s1) \<Rightarrow> MergeNotes_loop W remote rest s1)"

definition MergeNotes :: "world \<Rightarrow> string \<Rightarrow> string \<Rightarrow> git \<Rightarrow> error option \<times> git" where
  "MergeNotes W remote notesRefPattern s =
     (let remoteRefPattern = getRemoteNotesRef remote notesRefPattern
      in case getRefHashes s remoteRefPattern of
           Inl err \<Rightarrow> (Some err, s)
         | Inr refsMap \<Rightarrow> MergeNotes_loop W remote (map fst refsMap) s)"

text \<open>The loop of \<open>MergeArchives\<close> over the names of the remote refs.\<close>

fun MergeArchives_loop :: "world \<Rightarrow> string \<Rightarrow> string list \<Rightarrow> git \<Rightarrow> error option \<times> git" where
  "MergeArchives_loop W remote [] s = (None, s)"
| "MergeArchives_loop W remote (remoteRef # rest) s =
     (let localRef = getLocalDevtoolsRef remote remoteRef
      in case mergeArchives W localRef remoteRef s of
           (Some err, s1) \<Rightarrow> (Some err, s1)
         | (None, s1) \<Rightarrow> MergeArchives_loop W remote rest s1)"

definition MergeArchives :: "world \<Rightarrow> string \<Rightarrow> string \<Rightarrow> git \<Rightarrow> error option \<times> git" where
  "MergeArchives W remote archiveRefPattern s =
     (let remoteRefPattern = getRemoteDevtoolsRef remote archiveRefPattern
      in case getRefHashes s remoteRefPattern of
           Inl err \<Rightarrow> (Some err, s)
         | Inr refsMap \<Rightarrow> MergeArchives_loop W remote (map fst refsMap) s)"

text \<open>
  The loop of \<open>FetchAndReturnNewReviewHashes\<close> over the updated refs. \<open>updatedReviewSet\<close> is
  a Go map used as a set; the model keeps its keys in a list without repetitions.
  \<open>priorRefHashes[ref]\<close> is the empty string for a ref that is not in the map, which no
  hash equals. \<open>strings.Replace(notes, "/", "", -1)\<close> removes every slash.
\<close>

fun newReviews_loop ::
  "world \<Rightarrow> (string \<times> commit) list \<Rightarrow> (string \<times> commit) list \<Rightarrow> string list \<Rightarrow> error + string list"
where
  "newReviews_loop W priorRefHashes [] updatedReviewSet = Inr updatedReviewSet"
| "newReviews_loop W priorRefHashes ((ref, h) # rest) updatedReviewSet =
     (if map_of priorRefHashes ref = Some h
      then newReviews_loop W priorRefHashes rest updatedReviewSet
      else
        case (case map_of priorRefHashes ref of
                None \<Rightarrow> lsTreeNames W h
              | Some priorHash \<Rightarrow> diffNames W priorHash h) of
          Inl err \<Rightarrow> Inl err
        | Inr notes \<Rightarrow>
            let reviews = split_char CHR ''\<newline>'' (filter (\<lambda>c. c \<noteq> CHR ''/'') notes)
            in newReviews_loop W priorRefHashes rest (fold List.insert reviews updatedReviewSet))"

definition FetchAndReturnNewReviewHashes ::
  "world \<Rightarrow> string \<Rightarrow> string \<Rightarrow> string list \<Rightarrow> git \<Rightarrow> (error + string list) \<times> git"
where
  "FetchAndReturnNewReviewHashes W remote notesRefPattern devtoolsRefPatterns s =
     (case find (\<lambda>refPattern. \<not> prefix devtoolsRefPrefix refPattern) devtoolsRefPatterns of
        Some refPattern \<Rightarrow> (Inl (Error (''Unsupported devtools ref: '' @ quoted refPattern)), s)
      | None \<Rightarrow>
     (let remoteNotesRefPattern = getRemoteNotesRef remote notesRefPattern;
          notesFetchRefSpec = ''+'' @ notesRefPattern @ '':'' @ remoteNotesRefPattern;
          localDevtoolsRefPattern = devtoolsRefPrefix @ ''*'';
          remoteDevtoolsRefPattern = getRemoteDevtoolsRef remote localDevtoolsRefPattern;
          devtoolsFetchRefSpec = ''+'' @ localDevtoolsRefPattern @ '':'' @ remoteDevtoolsRefPattern
      in case getRefHashes s remoteNotesRefPattern of
           Inl err \<Rightarrow>
             (Inl (wrapError (''failure reading the existing ref hashes for the remote ''
                               @ quoted remote @ '': '') err []), s)
         | Inr priorRefHashes \<Rightarrow>
        (case repo_Fetch W remote [notesFetchRefSpec, devtoolsFetchRefSpec] s of
           (Some err, s1) \<Rightarrow>
             (Inl (wrapError (''failure fetching from the remote '' @ quoted remote @ '': '') err []), s1)
         | (None, s1) \<Rightarrow>
        (case getRefHashes s1 remoteNotesRefPattern of
           Inl err \<Rightarrow>
             (Inl (wrapError (''failure reading the updated ref hashes for the remote ''
                               @ quoted remote @ '': '') err []), s1)
         | Inr updatedRefHashes \<Rightarrow>
             (newReviews_loop W priorRefHashes updatedRefHashes [], s1)))))"

definition PullNotesAndArchive ::
  "world \<Rightarrow> string \<Rightarrow> string \<Rightarrow> string \<Rightarrow> git \<Rightarrow> error option \<times> git"
where
  "PullNotesAndArchive W remote notesRefPattern archiveRefPattern s =
     (case FetchAndReturnNewReviewHashes W remote notesRefPattern [archiveRefPattern] s of
        (Inl err, s1) \<Rightarrow>
          (Some (wrapError (''failure fetching from the remote '' @ quoted remote @ '': '') err []), s1)
      | (Inr ids, s1) \<Rightarrow>
     (case MergeArchives W remote archiveRefPattern s1 of
        (Some err, s2) \<Rightarrow>
          (Some (wrapError (''failure merging archives from the remote '' @ quoted remote @ '': '') err []), s2)
      | (None, s2) \<Rightarrow>
     (case MergeNotes W remote notesRefPattern s2 of
        (Some err, s3) \<Rightarrow>
          (Some (wrapError (''failure merging notes from the remote '' @ quoted remote @ '': '') err []), s3)
      | (None, s3) \<Rightarrow> (None, s3))))"

subsection \<open>The retrying update of the spec, and sample values for the theorems about git\<close>

text \<open>
  Modelled from the spec, to compare \<open>SetRef\<close> with: the policy of section 7 for a
  compare-and-swap that fails is to read the ref's value again and to retry the update
  once with it, and to return the failure of the retry only.
\<close>

definition SetRef_retrying ::
  "world \<Rightarrow> string \<Rightarrow> commit \<Rightarrow> commit option \<Rightarrow> git \<Rightarrow> error option \<times> git"
where
  "SetRef_retrying W ref newCommitHash previousCommitHash s =
     (case update_ref W ref newCommitHash previousCommitHash s of
        (None, s1) \<Rightarrow> (None, s1)
      | (Some err, s1) \<Rightarrow> update_ref W ref newCommitHash (map_of (refs s1) ref) s1)"

text \<open>
  A sample world and repository: \<open>exLocal\<close> and \<open>exOther\<close> are two children of \<open>exBase\<close>; a
  branch points to \<open>exOther\<close>, the local archive to \<open>exLocal\<close> and the archive fetched from the
  remote to \<open>exBase\<close>. The hex text of a commit is its message, to tell the commits apart.
  The sample git refuses to write a ref whose name continues the name of an existing ref
  after a slash, or that an existing ref's name continues so.
\<close>

definition exRefRefused :: "(string \<times> commit) list \<Rightarrow> string \<Rightarrow> error option" where
  "exRefRefused rs ref =
     (if list_ex (\<lambda>name. prefix (name @ ''/'') ref \<or> prefix (ref @ ''/'') name) (map fst rs)
      then Some (Error (''fatal: cannot lock ref '' @ ref))
      else None)"

definition exWorld :: world where
  "exWorld =
     \<lparr>hex = (\<lambda>c. Summary c),
      identity = Some ''me'',
      fetched = (\<lambda>remote refspecs rs. Inr rs),
      notesMerged = (\<lambda>strategy ours theirs. Inr theirs),
      lsTreeNames = (\<lambda>c. Inr (Tree c)),
      diffNames = (\<lambda>c d. Inr []),
      refRefused = exRefRefused\<rparr>"

definition exBase :: commit where
  "exBase = CommitObject [] ''tree0'' ''base'' ''me''"

definition exLocal :: commit where
  "exLocal = CommitObject [exBase] ''tree1'' ''local'' ''me''"

definition exOther :: commit where
  "exOther = CommitObject [exBase] ''tree2'' ''other'' ''you''"

definition exArchive :: string where
  "exArchive = ''refs/devtools/archives/reviews''"

definition exRemoteArchive :: string where
  "exRemoteArchive = ''refs/remoteDevtools/origin/archives/reviews''"

definition exBranch :: string where
  "exBranch = ''refs/heads/feature''"

definition exRepo :: git where
  "exRepo = \<lparr>refs = [(exBranch, exOther), (exArchive, exLocal), (exRemoteArchive, exBase)],
             journal = []\<rparr>"

subsection \<open>Predicates and sample values used by the theorems about pulling\<close>

text \<open>
  A sample pull: the remote's notes ref has moved from \<open>exNotes1\<close> to \<open>exNotes2\<close>, a merge
  commit with the same notes tree, so that \<open>git diff --name-only\<close> between the two prints
  nothing; the local archive is ahead of the fetched one, as in \<open>exRepo\<close>.
\<close>

definition exNotes1 :: commit where
  "exNotes1 = CommitObject [] ''notes'' ''Notes added'' ''me''"

definition exNotes2 :: commit where
  "exNotes2 = CommitObject [exNotes1] ''notes'' ''Merged notes'' ''you''"

definition exNotesRef :: string where
  "exNotesRef = ''refs/notes/devtools/discuss''"

definition exRemoteNotesRef :: string where
  "exRemoteNotesRef = ''refs/notes/remotes/origin/devtools/discuss''"

definition exFetched :: "string \<Rightarrow> string list \<Rightarrow> (string \<times> commit) list \<Rightarrow> error + (string \<times> commit) list" where
  "exFetched remote refspecs rs = Inr (AList.update exRemoteNotesRef exNotes2 rs)"

definition exDiffNames :: "commit \<Rightarrow> commit \<Rightarrow> error + string" where
  "exDiffNames c d = (if Tree c = Tree d then Inr [] else Inr ''ab/cdef'')"

definition exPullWorld :: world where
  "exPullWorld = exWorld\<lparr>fetched := exFetched, diffNames := exDiffNames\<rparr>"

definition exPullRepo :: git where
  "exPullRepo =
     \<lparr>refs = [(exNotesRef, exNotes1), (exRemoteNotesRef, exNotes1),
              (exArchive, exLocal), (exRemoteArchive, exBase)],
      journal = []\<rparr>"

definition exFetch :: gitCommand where
  "exFetch = Fetch ''origin'' [''+refs/notes/devtools/*:refs/notes/remotes/origin/devtools/*'',
                               ''+refs/devtools/*:refs/remoteDevtools/origin/*'']"

definition exPulled :: git where
  "exPulled =
     \<lparr>refs = [(exNotesRef, exNotes2), (exRemoteNotesRef, exNotes2),
              (exArchive,
               CommitObject [exBase, exLocal] ''tree0'' ''Merge local and remote archives'' ''me''),
              (exRemoteArchive, exBase)],
      journal = [exFetch,
                 CommitTree [exBase, exLocal] ''Merge local and remote archives'' ''tree0'',
                 UpdateRef exArchive
                   (CommitObject [exBase, exLocal] ''tree0'' ''Merge local and remote archives'' ''me'')
                   (Some exLocal),
                 NotesMerge exNotesRef exRemoteNotesRef ''cat_sort_uniq'']\<rparr>"

text \<open>
  The commands that the merging of archives writes to the journal (a \<open>commit-tree\<close>, or an
  \<open>update-ref\<close> of a ref under \<open>refs/devtools/\<close>), the notes merge that \<open>MergeNotes\<close> runs for a
  remote ref, and the fetch of a pull.
\<close>

fun archiveWrite :: "gitCommand \<Rightarrow> bool" where
  "archiveWrite (UpdateRef r new old) = prefix devtoolsRefPrefix r"
| "archiveWrite (CommitTree ps message tree) = True"
| "archiveWrite (NotesMerge localRef remoteRef strategy) = False"
| "archiveWrite (Fetch remote refspecs) = False"

definition notesMergeOf :: "string \<Rightarrow> string \<Rightarrow> gitCommand" where
  "notesMergeOf remote remoteRef =
     NotesMerge (getLocalNotesRef remote remoteRef) remoteRef ''cat_sort_uniq''"

definition pullFetch :: "string \<Rightarrow> string \<Rightarrow> gitCommand" where
  "pullFetch remote notesRefPattern =
     Fetch remote
       [''+'' @ notesRefPattern @ '':'' @ getRemoteNotesRef remote notesRefPattern,
        ''+'' @ devtoolsRefPrefix @ ''*'' @ '':''
          @ getRemoteDevtoolsRef remote (devtoolsRefPrefix @ ''*'')]"

text \<open>
  The output of \<open>ls-tree -r --name-only\<close> and of \<open>diff --name-only\<close> is the path names, one
  per line: \<open>joinLines\<close> of the names. \<open>reviewsOfListing\<close> is what the code makes of an output,
  \<open>listingOf\<close> the output it asks git for (the whole tree of a ref that is new, the
  difference to the prior commit otherwise), and \<open>changedRefs\<close> the updated refs whose hash
  is not the prior one.
\<close>

fun joinLines :: "string list \<Rightarrow> string" where
  "joinLines [] = []"
| "joinLines [name] = name"
| "joinLines (name # next # names) = name @ ''\<newline>'' @ joinLines (next # names)"

definition stripSlashes :: "string \<Rightarrow> string" where
  "stripSlashes name = filter (\<lambda>c. c \<noteq> CHR ''/'') name"

definition reviewsOfListing :: "string \<Rightarrow> string set" where
  "reviewsOfListing notes = set (split_char CHR ''\<newline>'' (stripSlashes notes))"

definition listingOf :: "world \<Rightarrow> (string \<times> commit) list \<Rightarrow> string \<times> commit \<Rightarrow> error + string" where
  "listingOf W priorRefHashes p =
     (case map_of priorRefHashes (fst p) of
        None \<Rightarrow> lsTreeNames W (snd p)
      | Some priorHash \<Rightarrow> diffNames W priorHash (snd p))"

definition changedRefs :: "(string \<times> commit) list \<Rightarrow> (string \<times> commit) list \<Rightarrow> (string \<times> commit) set" where
  "changedRefs priorRefHashes updatedRefHashes =
     {p. p \<in> set updatedRefHashes \<and> map_of priorRefHashes (fst p) \<noteq> Some (snd p)}"

section \<open>Theorems\<close>

subsection \<open>checkStringLooksLikeHash\<close>

lemma checkHashChars_None: "checkHashChars s = None \<longleftrightarrow> list_all isLowerHex s"
  by (induction s) (auto simp: isLowerHex_def)

text \<open>
  C9. \<open>checkStringLooksLikeHash\<close> returns \<open>nil\<close> exactly for the strings of at most 40
  characters that are all in \<open>'0'..'9'\<close> or \<open>'a'..'f'\<close>; every other string gets an error.
  The empty string and shorter strings are accepted; an uppercase hex digit or a 41st
  character is refused.
\<close>

theorem checkStringLooksLikeHash_nil_iff:
  "(checkStringLooksLikeHash s = None \<longleftrightarrow> length s \<le> 40 \<and> list_all isLowerHex s)
   \<and> checkStringLooksLikeHash [] = None
   \<and> (length s > 40 \<longrightarrow> checkStringLooksLikeHash s = Some (Error ''Invalid hash parameter''))
   \<and> (length s \<le> 40 \<and> \<not> list_all isLowerHex s \<longrightarrow>
        checkStringLooksLikeHash s = Some (Error ''Invalid hash character''))"
proof -
  have bad: "checkHashChars t = Some (Error ''Invalid hash character'')"
    if "\<not> list_all isLowerHex t" for t
    using that by (induction t) (auto simp: isLowerHex_def)
  show ?thesis
    by (auto simp: checkStringLooksLikeHash_def maxHashLength_def checkHashChars_None bad)
qed

theorem checkStringLooksLikeHash_nil_iff_witness:
  "checkStringLooksLikeHash ''0123abcdef'' = None
   \<and> checkStringLooksLikeHash ''DEADBEEF'' = Some (Error ''Invalid hash character'')
   \<and> checkStringLooksLikeHash (replicate 41 CHR ''a'') = Some (Error ''Invalid hash parameter'')"
proof -
  have a: "length ''0123abcdef'' \<le> 40 \<and> list_all isLowerHex ''0123abcdef''"
    by (simp add: isLowerHex_def)
  have b: "length ''DEADBEEF'' \<le> 40 \<and> \<not> list_all isLowerHex ''DEADBEEF''"
    by (simp add: isLowerHex_def)
  have c: "length (replicate 41 CHR ''a'') > 40" by simp
  show ?thesis
    using checkStringLooksLikeHash_nil_iff [of "''0123abcdef''"]
      checkStringLooksLikeHash_nil_iff [of "''DEADBEEF''"]
      checkStringLooksLikeHash_nil_iff [of "replicate 41 CHR ''a''"] a b c
    by blast
qed

subsection \<open>The comment command\<close>

lemma commentHashExists_Union:
  "commentHashExists h threads \<longleftrightarrow> h \<in> \<Union> (threadHashes ` set threads)"
  by (induction h threads rule: commentHashExists.induct) auto

lemma commentHashExists_iff:
  "commentHashExists h threads \<longleftrightarrow> knownCommentHash h threads"
  unfolding knownCommentHash_def commentHashExists_Union by auto

lemma validateArgs_fails_iff:
  "isl (validateArgs E F args threads) \<longleftrightarrow> invalidCommentArgs E F threads"
  unfolding invalidCommentArgs_def validateArgs_def commentHashExists_iff
  by (auto split: sum.splits simp: isl_def)

lemma commentOnReview_validation:
  assumes "length args \<le> 1"
    and "(if length args = 1 then review_Get E (args ! 0) else review_GetCurrent E) = Inr (Some r)"
    and "validateArgs E F args (Comments E r) = Inl e"
  shows "commentOnReview E F args st = (Some e, st)"
  using assms unfolding commentOnReview_def by (auto split: if_splits)

lemma commentOnPath_validation:
  assumes "commentFile F \<noteq> []" "length args \<le> 1"
    and "ResolveRefCommit E (if length args = 1 then args ! 0 else ''HEAD'') = Inr c"
    and "GetDetachedComments E (commentFile F) = Inr ts"
    and "validateArgs E F args ts = Inl e"
  shows "commentOnPath E F args st = (Some e, st)"
  using assms unfolding commentOnPath_def by (auto split: if_splits sum.splits simp: Let_def)

text \<open>
  C6, as the code has it. \<open>validateArgs\<close> returns an error exactly when both \<open>-lgtm\<close> and
  \<open>-nmw\<close> are set, or a non-empty parent hash is the hash of no comment at any depth of the
  threads, or there is no \<open>-m\<close> message and either the \<open>-F\<close> file cannot be read or, with no
  \<open>-F\<close> file, the editor fails or returns the empty message. When it does, the command
  (on a review or on a path) returns that error and leaves the repository as it was.
\<close>

theorem comment_validation:
  "(isl (validateArgs E F args threads) \<longleftrightarrow> invalidCommentArgs E F threads)
   \<and> (length args \<le> 1
        \<and> (if length args = 1 then review_Get E (args ! 0) else review_GetCurrent E) = Inr (Some r)
        \<and> invalidCommentArgs E F (Comments E r)
      \<longrightarrow> (\<exists>e. validateArgs E F args (Comments E r) = Inl e
               \<and> commentOnReview E F args st = (Some e, st)))
   \<and> (commentFile F \<noteq> [] \<and> length args \<le> 1
        \<and> ResolveRefCommit E (if length args = 1 then args ! 0 else ''HEAD'') = Inr c
        \<and> GetDetachedComments E (commentFile F) = Inr ts
        \<and> invalidCommentArgs E F ts
      \<longrightarrow> (\<exists>e. validateArgs E F args ts = Inl e
               \<and> commentOnPath E F args st = (Some e, st)))"
proof (intro conjI impI)
  show "isl (validateArgs E F args threads) \<longleftrightarrow> invalidCommentArgs E F threads"
    by (rule validateArgs_fails_iff)
next
  assume a: "length args \<le> 1
        \<and> (if length args = 1 then review_Get E (args ! 0) else review_GetCurrent E) = Inr (Some r)
        \<and> invalidCommentArgs E F (Comments E r)"
  then obtain e where e: "validateArgs E F args (Comments E r) = Inl e"
    using validateArgs_fails_iff [of E F args "Comments E r"] by (auto simp: isl_def)
  with a commentOnReview_validation [of args E r F e st]
  show "\<exists>e. validateArgs E F args (Comments E r) = Inl e
               \<and> commentOnReview E F args st = (Some e, st)" by blast
next
  assume a: "commentFile F \<noteq> [] \<and> length args \<le> 1
        \<and> ResolveRefCommit E (if length args = 1 then args ! 0 else ''HEAD'') = Inr c
        \<and> GetDetachedComments E (commentFile F) = Inr ts
        \<and> invalidCommentArgs E F ts"
  then obtain e where e: "validateArgs E F args ts = Inl e"
    using validateArgs_fails_iff [of E F args ts] by (auto simp: isl_def)
  with a commentOnPath_validation [of F args E c ts e st]
  show "\<exists>e. validateArgs E F args ts = Inl e \<and> commentOnPath E F args st = (Some e, st)"
    by blast
qed

theorem comment_validation_witness:
  "commentOnReview exEnv (exFlags\<lparr>commentLgtm := True, commentNmw := True\<rparr>) [''abc''] [] =
     (Some (Error ''You cannot combine the flags -lgtm and -nmw.''), [])
   \<and> isl (validateArgs exEnv (exFlags\<lparr>commentParent := ''1f''\<rparr>) [''abc''] [])
   \<and> commentOnPath exEnv (exFlags\<lparr>commentFile := ''a.go''\<rparr>) [] [] =
     (Some (Error ''No comment''), [])"
proof -
  let ?F = "exFlags\<lparr>commentLgtm := True, commentNmw := True\<rparr>"
  let ?G = "exFlags\<lparr>commentParent := ''1f''\<rparr>"
  let ?H = "exFlags\<lparr>commentFile := ''a.go''\<rparr>"
  have 1: "length [''abc''] \<le> 1
        \<and> (if length [''abc''] = 1 then review_Get exEnv ([''abc''] ! 0) else review_GetCurrent exEnv)
            = Inr (Some ''abc'')
        \<and> invalidCommentArgs exEnv ?F (Comments exEnv ''abc'')"
    by (simp add: exEnv_def exFlags_def invalidCommentArgs_def)
  have 2: "invalidCommentArgs exEnv ?G []"
    by (simp add: exEnv_def exFlags_def invalidCommentArgs_def knownCommentHash_def)
  have 3: "commentFile ?H \<noteq> [] \<and> length ([]::string list) \<le> 1
        \<and> ResolveRefCommit exEnv (if length ([]::string list) = 1 then [] ! 0 else ''HEAD'') = Inr ''HEAD''
        \<and> GetDetachedComments exEnv (commentFile ?H) = Inr []
        \<and> invalidCommentArgs exEnv ?H []"
    by (simp add: exEnv_def exFlags_def invalidCommentArgs_def)
  have v1: "validateArgs exEnv ?F [''abc''] (Comments exEnv ''abc'') =
      Inl (Error ''You cannot combine the flags -lgtm and -nmw.'')"
    by (simp add: validateArgs_def exFlags_def)
  have v3: "validateArgs exEnv ?H [] [] = Inl (Error ''No comment'')"
    by (simp add: validateArgs_def exFlags_def exEnv_def)
  from comment_validation [of exEnv ?F "[''abc'']" "[]" "''abc''" "[]" "''HEAD''" "[]"] 1 v1
  have a: "commentOnReview exEnv ?F [''abc''] [] =
     (Some (Error ''You cannot combine the flags -lgtm and -nmw.''), [])" by auto
  from comment_validation [of exEnv ?G "[''abc'']" "[]" "''abc''" "[]" "''HEAD''" "[]"] 2
  have b: "isl (validateArgs exEnv ?G [''abc''] [])" by blast
  from comment_validation [of exEnv ?H "[]" "[]" "''abc''" "[]" "''HEAD''" "[]"] 3 v3
  have c: "commentOnPath exEnv ?H [] [] = (Some (Error ''No comment''), [])" by auto
  from a b c show ?thesis by blast
qed

text \<open>
  C6 as stated fails: with \<open>-F\<close> naming an empty file, no \<open>-m\<close>, and an editor that would
  return nothing either, no input source provides a non-empty message, yet \<open>validateArgs\<close>
  returns \<open>nil\<close> and the command adds a comment with an empty description.
\<close>

theorem comment_validation_counterexample:
  "validateArgs exEnv (exFlags\<lparr>commentMessageFile := ''empty.txt''\<rparr>) [''abc''] [] =
     Inr (exFlags\<lparr>commentMessageFile := ''empty.txt''\<rparr>)
   \<and> FromFile exEnv ''empty.txt'' = Inr []
   \<and> LaunchEditor exEnv (commentFilename exEnv) = Inr []
   \<and> commentMessage (exFlags\<lparr>commentMessageFile := ''empty.txt''\<rparr>) = []
   \<and> commentCmd_RunMethod exEnv (exFlags\<lparr>commentMessageFile := ''empty.txt''\<rparr>) [''abc''] [] =
     (None, [\<lparr>Timestamp = ''0'', Author = ''me@example.com'',
              Location = Some \<lparr>Commit = ''abc'', Path = [],
                               Range = Some \<lparr>StartLine = 0, StartColumn = 0, EndLine = 0, EndColumn = 0\<rparr>\<rparr>,
              Parent = [], Description = [], Resolved = None, Signature = []\<rparr>])"
  by (simp add: validateArgs_def exFlags_def exEnv_def commentCmd_RunMethod_def commentOnReview_def
      buildCommentFromFlags_def Let_def)


subsection \<open>The accept command\<close>

lemma lgtmOnHead_Timestamp: "lgtmOnHead (c\<lparr>Timestamp := t\<rparr>) head = lgtmOnHead c head"
  by (simp add: lgtmOnHead_def)

lemma lgtmOnHead_Signature: "lgtmOnHead (c\<lparr>Signature := t\<rparr>) head = lgtmOnHead c head"
  by (simp add: lgtmOnHead_def)

lemma lgtmOnHead_built:
  "lgtmOnHead (c\<lparr>Location := Some \<lparr>Commit = head, Path = [], Range = None\<rparr>, Resolved := Some True\<rparr>) head"
  by (simp add: lgtmOnHead_def)

text \<open>
  Every outcome of \<open>accept\<close>: an error with the repository as it was, or \<open>AddComment\<close> on the
  loaded review with an LGTM on the head.
\<close>

lemma acceptReview_outcomes:
  "(\<exists>e. acceptReview E F args st = (Some e, st)) \<or>
   (\<exists>r head c.
      (if length args = 1 then review_Get E (args ! 0) else review_GetCurrent E) = Inr (Some r)
      \<and> GetHeadCommit E r = Inr head
      \<and> acceptReview E F args st = AddComment E r c st
      \<and> lgtmOnHead c head)"
proof (cases "length args > 1")
  case True
  then show ?thesis by (simp add: acceptReview_def)
next
  case short: False
  let ?load = "if length args = 1 then review_Get E (args ! 0) else review_GetCurrent E"
  show ?thesis
  proof (cases ?load)
    case (Inl err)
    with short show ?thesis by (simp add: acceptReview_def)
  next
    case (Inr ro)
    show ?thesis
    proof (cases ro)
      case None
      with short Inr show ?thesis by (simp add: acceptReview_def)
    next
      case (Some r)
      show ?thesis
      proof (cases "GetHeadCommit E r")
        case (Inl err)
        with short Inr Some show ?thesis by (simp add: acceptReview_def)
      next
        case head: (Inr head)
        let ?msg = "if acceptMessageFile F \<noteq> [] \<and> acceptMessage F = []
                    then FromFile E (acceptMessageFile F) else Inr (acceptMessage F)"
        have "(\<exists>e. acceptReview E F args st = (Some e, st)) \<or>
          (\<exists>c. acceptReview E F args st = AddComment E r c st \<and> lgtmOnHead c head)"
        proof (cases "GetUserEmail E")
          case (Inl err)
          with short Inr Some head show ?thesis by (simp add: acceptReview_def)
        next
          case email: (Inr userEmail)
          show ?thesis
          proof (cases ?msg)
            case (Inl err)
            with short Inr Some head email show ?thesis by (simp add: acceptReview_def)
          next
            case msg: (Inr message)
            show ?thesis
            proof (cases "GetDate E (acceptDate F)")
              case (Inl err)
              with short Inr Some head email msg show ?thesis by (simp add: acceptReview_def)
            next
              case date: (Inr date0)
              define c3 where "c3 =
                (let date = (case date0 of None \<Rightarrow> Now E | Some d \<Rightarrow> d);
                     timestamp = FormatDate E date;
                     c2 = (comment_New E userEmail message)
                            \<lparr>Location := Some \<lparr>Commit = head, Path = [], Range = None\<rparr>,
                              Resolved := Some True\<rparr>
                 in if length timestamp > 0 then c2\<lparr>Timestamp := timestamp\<rparr> else c2)"
              have c3: "lgtmOnHead c3 head"
                by (simp add: c3_def Let_def lgtmOnHead_Timestamp lgtmOnHead_built)
              note pre = short Inr Some head email msg date
              show ?thesis
              proof (cases "acceptSign F")
                case False
                with pre have "acceptReview E F args st = AddComment E r c3 st"
                  unfolding c3_def acceptReview_def by (simp add: Let_def)
                with c3 show ?thesis by blast
              next
                case sign: True
                show ?thesis
                proof (cases "GetUserSigningKey E")
                  case (Inl err)
                  with pre sign show ?thesis by (simp add: acceptReview_def Let_def)
                next
                  case key: (Inr key)
                  show ?thesis
                  proof (cases "DetachedSignature E key c3")
                    case (Inl err)
                    with pre sign key have "acceptReview E F args st = (Some err, st)"
                      unfolding c3_def acceptReview_def gpg_Sign_def by (simp add: Let_def)
                    then show ?thesis by blast
                  next
                    case (Inr sig)
                    with pre sign key
                    have "acceptReview E F args st = AddComment E r (c3\<lparr>Signature := sig\<rparr>) st"
                      unfolding c3_def acceptReview_def gpg_Sign_def by (simp add: Let_def)
                    moreover have "lgtmOnHead (c3\<lparr>Signature := sig\<rparr>) head"
                      using c3 by (simp add: lgtmOnHead_Signature)
                    ultimately show ?thesis by blast
                  qed
                qed
              qed
            qed
          qed
        qed
        then show ?thesis using Inr Some head by auto
      qed
    qed
  qed
qed

text \<open>\<open>accept\<close> where every step before \<open>AddComment\<close> succeeds.\<close>

lemma acceptReview_success:
  assumes args: "length args \<le> 1"
    and load: "(if length args = 1 then review_Get E (args ! 0) else review_GetCurrent E) = Inr (Some r)"
    and head: "GetHeadCommit E r = Inr head"
    and email: "GetUserEmail E = Inr userEmail"
    and msg: "(if acceptMessageFile F \<noteq> [] \<and> acceptMessage F = []
               then FromFile E (acceptMessageFile F) else Inr (acceptMessage F)) = Inr message"
    and date: "GetDate E (acceptDate F) = Inr date0"
    and ts: "timestamp = FormatDate E (case date0 of None \<Rightarrow> Now E | Some d \<Rightarrow> d)"
    and c2: "c2 = (comment_New E userEmail message)
                    \<lparr>Location := Some \<lparr>Commit = head, Path = [], Range = None\<rparr>,
                      Resolved := Some True\<rparr>"
    and c3: "c3 = (if length timestamp > 0 then c2\<lparr>Timestamp := timestamp\<rparr> else c2)"
  shows "\<not> acceptSign F \<Longrightarrow> acceptReview E F args st = AddComment E r c3 st"
    and "acceptSign F \<Longrightarrow> GetUserSigningKey E = Inr key \<Longrightarrow> DetachedSignature E key c3 = Inr sig \<Longrightarrow>
         acceptReview E F args st = AddComment E r (c3\<lparr>Signature := sig\<rparr>) st"
    and "lgtmOnHead c3 head" and "lgtmOnHead (c3\<lparr>Signature := sig\<rparr>) head"
proof -
  have short: "\<not> length args > 1" using args by simp
  note pre = short load head email msg date
  show "acceptReview E F args st = AddComment E r c3 st" if "\<not> acceptSign F"
    using pre that unfolding c3 c2 ts acceptReview_def by (simp add: Let_def)
  show "acceptReview E F args st = AddComment E r (c3\<lparr>Signature := sig\<rparr>) st"
    if "acceptSign F" "GetUserSigningKey E = Inr key" "DetachedSignature E key c3 = Inr sig"
    using pre that unfolding c3 c2 ts acceptReview_def gpg_Sign_def by (simp add: Let_def)
  show l: "lgtmOnHead c3 head"
    by (simp add: c3 c2 lgtmOnHead_Timestamp lgtmOnHead_built)
  then show "lgtmOnHead (c3\<lparr>Signature := sig\<rparr>) head"
    by (simp add: lgtmOnHead_Signature)
qed

text \<open>
  C7. Where the review is loaded and its head commit, the user's email, the message and
  the date are read, \<open>accept\<close> is \<open>AddComment\<close> on that review with the comment built from
  them, with \<open>Resolved\<close> set to \<open>true\<close> and the head commit as its location (and, with
  \<open>-S\<close>, with the signature that signing gives): it adds an LGTM on the head. And whatever
  the steps do, \<open>accept\<close> either returns an error and leaves the repository as it was, or
  what it adds is such a comment.
\<close>

theorem acceptReview_adds_lgtm_on_head:
  "(length args \<le> 1
     \<and> (if length args = 1 then review_Get E (args ! 0) else review_GetCurrent E) = Inr (Some r)
     \<and> GetHeadCommit E r = Inr head
     \<and> GetUserEmail E = Inr userEmail
     \<and> (if acceptMessageFile F \<noteq> [] \<and> acceptMessage F = []
         then FromFile E (acceptMessageFile F) else Inr (acceptMessage F)) = Inr message
     \<and> GetDate E (acceptDate F) = Inr date0
     \<and> timestamp = FormatDate E (case date0 of None \<Rightarrow> Now E | Some d \<Rightarrow> d)
     \<and> c2 = (comment_New E userEmail message)
               \<lparr>Location := Some \<lparr>Commit = head, Path = [], Range = None\<rparr>,
                 Resolved := Some True\<rparr>
     \<and> c3 = (if length timestamp > 0 then c2\<lparr>Timestamp := timestamp\<rparr> else c2)
    \<longrightarrow>
      (\<not> acceptSign F \<longrightarrow> acceptReview E F args st = AddComment E r c3 st)
      \<and> (\<forall>key sig. acceptSign F \<and> GetUserSigningKey E = Inr key
             \<and> DetachedSignature E key c3 = Inr sig \<longrightarrow>
           acceptReview E F args st = AddComment E r (c3\<lparr>Signature := sig\<rparr>) st)
      \<and> Resolved c3 = Some True
      \<and> Location c3 = Some \<lparr>Commit = head, Path = [], Range = None\<rparr>
      \<and> (\<forall>sig. Resolved (c3\<lparr>Signature := sig\<rparr>) = Some True
             \<and> Location (c3\<lparr>Signature := sig\<rparr>) = Some \<lparr>Commit = head, Path = [], Range = None\<rparr>))
   \<and> ((\<exists>e. acceptReview E F args st = (Some e, st)) \<or>
       (\<exists>r head c.
          (if length args = 1 then review_Get E (args ! 0) else review_GetCurrent E) = Inr (Some r)
          \<and> GetHeadCommit E r = Inr head
          \<and> acceptReview E F args st = AddComment E r c st
          \<and> Resolved c = Some True
          \<and> Location c = Some \<lparr>Commit = head, Path = [], Range = None\<rparr>))"
proof (intro conjI impI)
  assume a: "length args \<le> 1
     \<and> (if length args = 1 then review_Get E (args ! 0) else review_GetCurrent E) = Inr (Some r)
     \<and> GetHeadCommit E r = Inr head
     \<and> GetUserEmail E = Inr userEmail
     \<and> (if acceptMessageFile F \<noteq> [] \<and> acceptMessage F = []
         then FromFile E (acceptMessageFile F) else Inr (acceptMessage F)) = Inr message
     \<and> GetDate E (acceptDate F) = Inr date0
     \<and> timestamp = FormatDate E (case date0 of None \<Rightarrow> Now E | Some d \<Rightarrow> d)
     \<and> c2 = (comment_New E userEmail message)
               \<lparr>Location := Some \<lparr>Commit = head, Path = [], Range = None\<rparr>,
                 Resolved := Some True\<rparr>
     \<and> c3 = (if length timestamp > 0 then c2\<lparr>Timestamp := timestamp\<rparr> else c2)"
  then have h: "length args \<le> 1"
    "(if length args = 1 then review_Get E (args ! 0) else review_GetCurrent E) = Inr (Some r)"
    "GetHeadCommit E r = Inr head" "GetUserEmail E = Inr userEmail"
    "(if acceptMessageFile F \<noteq> [] \<and> acceptMessage F = []
         then FromFile E (acceptMessageFile F) else Inr (acceptMessage F)) = Inr message"
    "GetDate E (acceptDate F) = Inr date0"
    "timestamp = FormatDate E (case date0 of None \<Rightarrow> Now E | Some d \<Rightarrow> d)"
    "c2 = (comment_New E userEmail message)
               \<lparr>Location := Some \<lparr>Commit = head, Path = [], Range = None\<rparr>,
                 Resolved := Some True\<rparr>"
    "c3 = (if length timestamp > 0 then c2\<lparr>Timestamp := timestamp\<rparr> else c2)"
    by blast+
  note s = acceptReview_success [OF h]
  show "acceptReview E F args st = AddComment E r c3 st" if "\<not> acceptSign F"
    using that by (rule s(1))
  show "\<forall>key sig. acceptSign F \<and> GetUserSigningKey E = Inr key
             \<and> DetachedSignature E key c3 = Inr sig \<longrightarrow>
           acceptReview E F args st = AddComment E r (c3\<lparr>Signature := sig\<rparr>) st"
    using s(2) by blast
  show "Resolved c3 = Some True" "Location c3 = Some \<lparr>Commit = head, Path = [], Range = None\<rparr>"
    using s(3) by (simp_all add: lgtmOnHead_def)
  show "\<forall>sig. Resolved (c3\<lparr>Signature := sig\<rparr>) = Some True
             \<and> Location (c3\<lparr>Signature := sig\<rparr>) = Some \<lparr>Commit = head, Path = [], Range = None\<rparr>"
    using s(4) by (simp add: lgtmOnHead_def)
next
  show "(\<exists>e. acceptReview E F args st = (Some e, st)) \<or>
       (\<exists>r head c.
          (if length args = 1 then review_Get E (args ! 0) else review_GetCurrent E) = Inr (Some r)
          \<and> GetHeadCommit E r = Inr head
          \<and> acceptReview E F args st = AddComment E r c st
          \<and> Resolved c = Some True
          \<and> Location c = Some \<lparr>Commit = head, Path = [], Range = None\<rparr>)"
    using acceptReview_outcomes [of E F args st] by (simp add: lgtmOnHead_def)
qed

theorem acceptReview_adds_lgtm_on_head_witness:
  "acceptReview exEnv exAcceptFlags [''abc''] [] =
     (None, [\<lparr>Timestamp = ''0'', Author = ''me@example.com'',
              Location = Some \<lparr>Commit = ''abc'', Path = [], Range = None\<rparr>,
              Parent = [], Description = ''fine'', Resolved = Some True, Signature = []\<rparr>])
   \<and> acceptReview exSigningEnv (exAcceptFlags\<lparr>acceptSign := True\<rparr>) [''abc''] [] =
     (None, [\<lparr>Timestamp = ''0'', Author = ''me@example.com'',
              Location = Some \<lparr>Commit = ''abc'', Path = [], Range = None\<rparr>,
              Parent = [], Description = ''fine'', Resolved = Some True,
              Signature = ''signed''\<rparr>])"
proof -
  let ?c2 = "\<lparr>Timestamp = [], Author = ''me@example.com'',
              Location = Some \<lparr>Commit = ''abc'', Path = [], Range = None\<rparr>,
              Parent = [], Description = ''fine'', Resolved = Some True, Signature = []\<rparr>"
  let ?c3 = "\<lparr>Timestamp = ''0'', Author = ''me@example.com'',
              Location = Some \<lparr>Commit = ''abc'', Path = [], Range = None\<rparr>,
              Parent = [], Description = ''fine'', Resolved = Some True, Signature = []\<rparr>"
  let ?G = "exAcceptFlags\<lparr>acceptSign := True\<rparr>"
  have h1: "length [''abc''] \<le> 1
     \<and> (if length [''abc''] = 1 then review_Get exEnv ([''abc''] ! 0) else review_GetCurrent exEnv)
         = Inr (Some ''abc'')
     \<and> GetHeadCommit exEnv ''abc'' = Inr ''abc''
     \<and> GetUserEmail exEnv = Inr ''me@example.com''
     \<and> (if acceptMessageFile exAcceptFlags \<noteq> [] \<and> acceptMessage exAcceptFlags = []
         then FromFile exEnv (acceptMessageFile exAcceptFlags) else Inr (acceptMessage exAcceptFlags))
         = Inr ''fine''
     \<and> GetDate exEnv (acceptDate exAcceptFlags) = Inr None
     \<and> ''0'' = FormatDate exEnv (case None of None \<Rightarrow> Now exEnv | Some d \<Rightarrow> d)
     \<and> ?c2 = (comment_New exEnv ''me@example.com'' ''fine'')
               \<lparr>Location := Some \<lparr>Commit = ''abc'', Path = [], Range = None\<rparr>,
                 Resolved := Some True\<rparr>
     \<and> ?c3 = (if length ''0'' > 0 then ?c2\<lparr>Timestamp := ''0''\<rparr> else ?c2)"
    by (simp add: exEnv_def exAcceptFlags_def)
  have h2: "length [''abc''] \<le> 1
     \<and> (if length [''abc''] = 1 then review_Get exSigningEnv ([''abc''] ! 0)
         else review_GetCurrent exSigningEnv) = Inr (Some ''abc'')
     \<and> GetHeadCommit exSigningEnv ''abc'' = Inr ''abc''
     \<and> GetUserEmail exSigningEnv = Inr ''me@example.com''
     \<and> (if acceptMessageFile ?G \<noteq> [] \<and> acceptMessage ?G = []
         then FromFile exSigningEnv (acceptMessageFile ?G) else Inr (acceptMessage ?G))
         = Inr ''fine''
     \<and> GetDate exSigningEnv (acceptDate ?G) = Inr None
     \<and> ''0'' = FormatDate exSigningEnv (case None of None \<Rightarrow> Now exSigningEnv | Some d \<Rightarrow> d)
     \<and> ?c2 = (comment_New exSigningEnv ''me@example.com'' ''fine'')
               \<lparr>Location := Some \<lparr>Commit = ''abc'', Path = [], Range = None\<rparr>,
                 Resolved := Some True\<rparr>
     \<and> ?c3 = (if length ''0'' > 0 then ?c2\<lparr>Timestamp := ''0''\<rparr> else ?c2)"
    by (simp add: exEnv_def exSigningEnv_def exAcceptFlags_def)
  have n: "\<not> acceptSign exAcceptFlags" by (simp add: exAcceptFlags_def)
  have y: "acceptSign ?G \<and> GetUserSigningKey exSigningEnv = Inr ''key''
     \<and> DetachedSignature exSigningEnv ''key'' ?c3 = Inr ''signed''"
    by (simp add: exSigningEnv_def exAcceptFlags_def)
  from acceptReview_adds_lgtm_on_head [of "[''abc'']" exEnv "''abc''" "''abc''" "''me@example.com''"
      exAcceptFlags "''fine''" None "''0''" ?c2 ?c3 "[]"] h1 n
  have 1: "acceptReview exEnv exAcceptFlags [''abc''] [] = AddComment exEnv ''abc'' ?c3 []"
    by blast
  from acceptReview_adds_lgtm_on_head [of "[''abc'']" exSigningEnv "''abc''" "''abc''"
      "''me@example.com''" ?G "''fine''" None "''0''" ?c2 ?c3 "[]"] h2 y
  have 2: "acceptReview exSigningEnv ?G [''abc''] [] =
      AddComment exSigningEnv ''abc'' (?c3\<lparr>Signature := ''signed''\<rparr>) []"
    by blast
  show ?thesis unfolding 1 2 by (simp add: exEnv_def exSigningEnv_def)
qed


subsection \<open>The branch and review handlers\<close>



















text \<open>The handlers on requests that name a branch (and a review) that exists.\<close>

lemma handlers_serve_page:
  "ServeBranchTemplate (exWeb False) exRepoDetails (exQuery ''1'' []) =
     Inr \<lparr>status = 200, contentType = ''text/html; charset=utf-8'', body = ''branch''\<rparr>
   \<and> ServeReviewTemplate (exWeb False) exRepoDetails (exQuery ''01'' ''1f'') =
     Inr \<lparr>status = 200, contentType = ''text/html; charset=utf-8'', body = ''review''\<rparr>"
  by (simp add: exQuery_def exWeb_def exRepoDetails_def ServeBranchTemplate_def
      ServeReviewTemplate_def ParseUint32_def isDigit_def digitValue_def int_of_uint64_def
      WriteBranchTemplate_def WriteReviewTemplate_def index_def ServeTemplate_def StatusOK_def
      checkStringLooksLikeHash_def maxHashLength_def Let_def)

subsection \<open>SetRef\<close>

text \<open>
  C8, as the code has it. A \<open>SetRef\<close> whose expected old value does not match runs
  \<open>update-ref\<close> once, leaves the ref as it is and returns the failure at once: it does not
  read the ref again and does not retry.
\<close>

theorem SetRef_surfaces_at_once:
  assumes "map_of (refs s) ref \<noteq> Some previous"
  shows "SetRef W ref new (Some previous) s =
           (Some (Error (''fatal: update_ref failed for ref '' @ ref)),
            s\<lparr>journal := journal s @ [UpdateRef ref new (Some previous)]\<rparr>)"
  using assms by (simp add: SetRef_def update_ref_def)

theorem SetRef_surfaces_at_once_witness:
  "SetRef exWorld ''refs/heads/x'' exOther (Some exLocal)
     \<lparr>refs = [(''refs/heads/x'', exBase)], journal = []\<rparr> =
     (Some (Error ''fatal: update_ref failed for ref refs/heads/x''),
      \<lparr>refs = [(''refs/heads/x'', exBase)],
       journal = [UpdateRef ''refs/heads/x'' exOther (Some exLocal)]\<rparr>)"
proof -
  have "map_of (refs \<lparr>refs = [(''refs/heads/x'', exBase)], journal = []\<rparr>) ''refs/heads/x'' \<noteq> Some exLocal"
    by (simp add: exBase_def exLocal_def)
  from SetRef_surfaces_at_once [OF this, of exWorld exOther] show ?thesis by simp
qed

text \<open>
  C8 as stated fails: where the expected old value is stale, \<open>SetRef\<close> returns the error after
  one \<open>update-ref\<close>, while the update that retries once after reading the ref again
  succeeds with a second \<open>update-ref\<close>.
\<close>

theorem SetRef_retry_counterexample:
  "SetRef exWorld ''refs/heads/x'' exOther (Some exLocal)
     \<lparr>refs = [(''refs/heads/x'', exBase)], journal = []\<rparr> =
     (Some (Error ''fatal: update_ref failed for ref refs/heads/x''),
      \<lparr>refs = [(''refs/heads/x'', exBase)],
       journal = [UpdateRef ''refs/heads/x'' exOther (Some exLocal)]\<rparr>)
   \<and> SetRef_retrying exWorld ''refs/heads/x'' exOther (Some exLocal)
       \<lparr>refs = [(''refs/heads/x'', exBase)], journal = []\<rparr> =
     (None,
      \<lparr>refs = [(''refs/heads/x'', exOther)],
       journal = [UpdateRef ''refs/heads/x'' exOther (Some exLocal),
                  UpdateRef ''refs/heads/x'' exOther (Some exBase)]\<rparr>)"
  by (simp add: SetRef_def SetRef_retrying_def update_ref_def exBase_def exLocal_def
      exWorld_def exRefRefused_def)

subsection \<open>ArchiveRef\<close>

lemmas ex_defs = exWorld_def exRepo_def exBranch_def exArchive_def exRemoteArchive_def
  exBase_def exLocal_def exOther_def exRefRefused_def

lemma IsAncestor_refl: "IsAncestor c c"
  by (cases c) simp

lemma IsAncestor_parent: "p \<in> set (Parents c) \<Longrightarrow> IsAncestor p c"
  using IsAncestor_refl [of p] by (cases c) (auto simp: list_ex_iff)

lemma ArchiveRef_missing_ref:
  "map_of (refs s) ref = None \<Longrightarrow>
   ArchiveRef W ref archive s = (Some (Error (''fatal: bad revision '' @ ref)), s)"
  by (simp add: ArchiveRef_def GetCommitHash_def)

lemma ArchiveRef_create:
  assumes "map_of (refs s) ref = Some r" "map_of (refs s) archive = None" "identity W = Some st"
    "refRefused W (refs s) archive = None"
  shows "ArchiveRef W ref archive s =
     (None, s\<lparr>refs := AList.update archive
                       (CommitObject [r] (Tree r) (''Archive '' @ hex W r) st) (refs s),
              journal := journal s @
                [CommitTree [r] (''Archive '' @ hex W r) (Tree r),
                 UpdateRef archive (CommitObject [r] (Tree r) (''Archive '' @ hex W r) st) None]\<rparr>)"
  using assms
  by (simp add: ArchiveRef_def GetCommitHash_def repo_GetCommitDetails_def commit_tree_def
      update_ref_def Let_def)

lemma ArchiveRef_noop:
  assumes "map_of (refs s) ref = Some r" "map_of (refs s) archive = Some a" "IsAncestor r a"
  shows "ArchiveRef W ref archive s = (None, s)"
  using assms
  by (simp add: ArchiveRef_def GetCommitHash_def repo_GetCommitDetails_def Let_def)

lemma ArchiveRef_graft:
  assumes "map_of (refs s) ref = Some r" "map_of (refs s) archive = Some a" "\<not> IsAncestor r a"
    "identity W = Some st" "refRefused W (refs s) archive = None"
  shows "ArchiveRef W ref archive s =
     (None, s\<lparr>refs := AList.update archive
                       (CommitObject [a, r] (Tree r) (''Archive '' @ hex W r) st) (refs s),
              journal := journal s @
                [CommitTree [a, r] (''Archive '' @ hex W r) (Tree r),
                 UpdateRef archive (CommitObject [a, r] (Tree r) (''Archive '' @ hex W r) st)
                   (Some a)]\<rparr>)"
  using assms
  by (simp add: ArchiveRef_def GetCommitHash_def repo_GetCommitDetails_def commit_tree_def
      update_ref_def Let_def)

lemma ArchiveRef_fails:
  assumes "map_of (refs s) ref = Some r"
    and "\<forall>a. map_of (refs s) archive = Some a \<longrightarrow> \<not> IsAncestor r a"
    and "identity W = None \<or> refRefused W (refs s) archive \<noteq> None"
  shows "\<exists>e s'. ArchiveRef W ref archive s = (Some e, s') \<and> refs s' = refs s"
proof (cases "identity W")
  case None
  with assms(1,2) show ?thesis
    by (cases "map_of (refs s) archive")
       (simp_all add: ArchiveRef_def GetCommitHash_def repo_GetCommitDetails_def commit_tree_def
        Let_def)
next
  case (Some st)
  with assms(3) obtain e where "refRefused W (refs s) archive = Some e" by auto
  with assms(1,2) Some show ?thesis
    by (cases "map_of (refs s) archive")
       (simp_all add: ArchiveRef_def GetCommitHash_def repo_GetCommitDetails_def commit_tree_def
        update_ref_def Let_def)
qed

text \<open>
  C4. Archiving a ref that points to \<open>r\<close>. Where git can create the commit and write the
  archive ref: if the archive does not exist, it is created pointing to a new commit whose
  only parent is \<open>r\<close>; otherwise, with \<open>a\<close> the archive's commit, a new commit with the
  parents \<open>[a, r]\<close>, the tree of \<open>r\<close> and the message \<open>Archive <hash of r>\<close> is created and the
  archive is updated to it with \<open>a\<close> as the expected old value, unless \<open>r\<close> is an ancestor of
  \<open>a\<close>: then nothing happens, whatever git can do. Where git cannot create the commit or
  refuses to write the archive ref, and \<open>r\<close> is not archived yet, \<open>ArchiveRef\<close> returns the
  error and the refs are as they were.
\<close>

theorem ArchiveRef_case_analysis:
  assumes "map_of (refs s) ref = Some r"
  shows "(map_of (refs s) archive = None \<and> identity W = Some st
            \<and> refRefused W (refs s) archive = None \<longrightarrow>
            ArchiveRef W ref archive s =
              (None, s\<lparr>refs := AList.update archive
                              (CommitObject [r] (Tree r) (''Archive '' @ hex W r) st) (refs s),
                       journal := journal s @
                         [CommitTree [r] (''Archive '' @ hex W r) (Tree r),
                          UpdateRef archive
                            (CommitObject [r] (Tree r) (''Archive '' @ hex W r) st) None]\<rparr>))
       \<and> (\<forall>a. map_of (refs s) archive = Some a \<and> IsAncestor r a \<longrightarrow>
            ArchiveRef W ref archive s = (None, s))
       \<and> (\<forall>a. map_of (refs s) archive = Some a \<and> \<not> IsAncestor r a \<and> identity W = Some st
            \<and> refRefused W (refs s) archive = None \<longrightarrow>
            ArchiveRef W ref archive s =
              (None, s\<lparr>refs := AList.update archive
                              (CommitObject [a, r] (Tree r) (''Archive '' @ hex W r) st) (refs s),
                       journal := journal s @
                         [CommitTree [a, r] (''Archive '' @ hex W r) (Tree r),
                          UpdateRef archive
                            (CommitObject [a, r] (Tree r) (''Archive '' @ hex W r) st)
                            (Some a)]\<rparr>))
       \<and> ((\<forall>a. map_of (refs s) archive = Some a \<longrightarrow> \<not> IsAncestor r a)
            \<and> (identity W = None \<or> refRefused W (refs s) archive \<noteq> None) \<longrightarrow>
            (\<exists>e s'. ArchiveRef W ref archive s = (Some e, s') \<and> refs s' = refs s))"
  using ArchiveRef_create [OF assms, of archive W st]
    ArchiveRef_noop [OF assms, of archive _ W]
    ArchiveRef_graft [OF assms, of archive _ W st]
    ArchiveRef_fails [OF assms, of archive W]
  by blast

theorem ArchiveRef_case_analysis_witness:
  "ArchiveRef exWorld exBranch exArchive exRepo =
     (None,
      \<lparr>refs = [(exBranch, exOther),
               (exArchive, CommitObject [exLocal, exOther] ''tree2'' ''Archive other'' ''me''),
               (exRemoteArchive, exBase)],
       journal = [CommitTree [exLocal, exOther] ''Archive other'' ''tree2'',
                  UpdateRef exArchive
                    (CommitObject [exLocal, exOther] ''tree2'' ''Archive other'' ''me'')
                    (Some exLocal)]\<rparr>)
   \<and> ArchiveRef exWorld exRemoteArchive exArchive exRepo = (None, exRepo)
   \<and> ArchiveRef exWorld exBranch ''refs/devtools/archives/new'' exRepo =
     (None,
      \<lparr>refs = [(exBranch, exOther), (exArchive, exLocal), (exRemoteArchive, exBase),
               (''refs/devtools/archives/new'',
                CommitObject [exOther] ''tree2'' ''Archive other'' ''me'')],
       journal = [CommitTree [exOther] ''Archive other'' ''tree2'',
                  UpdateRef ''refs/devtools/archives/new''
                    (CommitObject [exOther] ''tree2'' ''Archive other'' ''me'') None]\<rparr>)
   \<and> (\<exists>e s'. ArchiveRef exWorld exBranch ''refs/devtools/archives/reviews/sub'' exRepo = (Some e, s')
          \<and> refs s' = refs exRepo)"
proof -
  have id: "identity exWorld = Some ''me''" by (simp add: exWorld_def)
  have r: "map_of (refs exRepo) exBranch = Some exOther"
    and b: "map_of (refs exRepo) exRemoteArchive = Some exBase"
    and a: "map_of (refs exRepo) exArchive = Some exLocal"
    and n: "map_of (refs exRepo) ''refs/devtools/archives/new'' = None"
    and m: "map_of (refs exRepo) ''refs/devtools/archives/reviews/sub'' = None"
    by (simp_all add: exRepo_def exBranch_def exArchive_def exRemoteArchive_def)
  have w: "refRefused exWorld (refs exRepo) exArchive = None"
    "refRefused exWorld (refs exRepo) ''refs/devtools/archives/new'' = None"
    "refRefused exWorld (refs exRepo) ''refs/devtools/archives/reviews/sub'' \<noteq> None"
    by (simp_all add: ex_defs)
  have no: "\<not> IsAncestor exOther exLocal" and yes: "IsAncestor exBase exLocal"
    by (simp_all add: exBase_def exLocal_def exOther_def)
  have 1: "ArchiveRef exWorld exBranch exArchive exRepo =
     (None, exRepo\<lparr>refs := AList.update exArchive
                       (CommitObject [exLocal, exOther] (Tree exOther) (''Archive '' @ hex exWorld exOther) ''me'') (refs exRepo),
              journal := journal exRepo @
                [CommitTree [exLocal, exOther] (''Archive '' @ hex exWorld exOther) (Tree exOther),
                 UpdateRef exArchive (CommitObject [exLocal, exOther] (Tree exOther) (''Archive '' @ hex exWorld exOther) ''me'')
                   (Some exLocal)]\<rparr>)"
    using ArchiveRef_case_analysis [OF r, of exArchive exWorld "''me''"] a no id w(1) by blast
  have 2: "ArchiveRef exWorld exRemoteArchive exArchive exRepo = (None, exRepo)"
    using ArchiveRef_case_analysis [OF b, of exArchive exWorld "''me''"] a yes by blast
  have 3: "ArchiveRef exWorld exBranch ''refs/devtools/archives/new'' exRepo =
     (None, exRepo\<lparr>refs := AList.update ''refs/devtools/archives/new''
                       (CommitObject [exOther] (Tree exOther) (''Archive '' @ hex exWorld exOther) ''me'') (refs exRepo),
              journal := journal exRepo @
                [CommitTree [exOther] (''Archive '' @ hex exWorld exOther) (Tree exOther),
                 UpdateRef ''refs/devtools/archives/new''
                   (CommitObject [exOther] (Tree exOther) (''Archive '' @ hex exWorld exOther) ''me'') None]\<rparr>)"
    using ArchiveRef_case_analysis [OF r, of "''refs/devtools/archives/new''" exWorld "''me''"] n id w(2)
    by blast
  have 4: "\<exists>e s'. ArchiveRef exWorld exBranch ''refs/devtools/archives/reviews/sub'' exRepo = (Some e, s')
          \<and> refs s' = refs exRepo"
    using ArchiveRef_case_analysis [OF r, of "''refs/devtools/archives/reviews/sub''" exWorld "''me''"]
      m w(3) by simp
  have t: "Tree exOther = ''tree2''" "hex exWorld exOther = ''other''"
    by (simp_all add: exOther_def exWorld_def)
  have u1: "AList.update exArchive c (refs exRepo) =
      [(exBranch, exOther), (exArchive, c), (exRemoteArchive, exBase)]" for c
    by (simp add: exRepo_def exBranch_def exArchive_def exRemoteArchive_def)
  have u3: "AList.update ''refs/devtools/archives/new'' c (refs exRepo) =
      [(exBranch, exOther), (exArchive, exLocal), (exRemoteArchive, exBase),
       (''refs/devtools/archives/new'', c)]" for c
    by (simp add: exRepo_def exBranch_def exArchive_def exRemoteArchive_def)
  have j: "journal exRepo = []" by (simp add: exRepo_def)
  show ?thesis
    using 4 unfolding 1 2 3 t u1 u3 j by (simp add: exRepo_def)
qed

text \<open>
  The sample git refuses to create a ref below the existing archive ref: \<open>ArchiveRef\<close> has
  made the commit and returns the error of \<open>update-ref\<close>.
\<close>

lemma ArchiveRef_refused_sample:
  "ArchiveRef exWorld exBranch ''refs/devtools/archives/reviews/sub'' exRepo =
     (Some (Error ''fatal: cannot lock ref refs/devtools/archives/reviews/sub''),
      \<lparr>refs = [(exBranch, exOther), (exArchive, exLocal), (exRemoteArchive, exBase)],
       journal = [CommitTree [exOther] ''Archive other'' ''tree2'',
                  UpdateRef ''refs/devtools/archives/reviews/sub''
                    (CommitObject [exOther] ''tree2'' ''Archive other'' ''me'') None]\<rparr>)"
  by (simp add: ArchiveRef_def GetCommitHash_def repo_GetCommitDetails_def commit_tree_def
      update_ref_def Let_def ex_defs)

lemma map_of_update_same: "map_of (AList.update k v al) k = Some v"
  by (simp add: update_conv')

text \<open>
  C3. If \<open>ArchiveRef\<close> returns without error, the commit the ref pointed to when it was
  called is an ancestor of the commit the archive points to afterwards.
\<close>

theorem ArchiveRef_reachability:
  assumes "ArchiveRef W ref archive s = (None, s')"
  shows "\<exists>r a. map_of (refs s) ref = Some r \<and> map_of (refs s') archive = Some a \<and> IsAncestor r a"
proof (cases "map_of (refs s) ref")
  case None
  with assms ArchiveRef_missing_ref [of s ref W archive] show ?thesis by simp
next
  case (Some r)
  show ?thesis
  proof (cases "\<exists>a. map_of (refs s) archive = Some a \<and> IsAncestor r a")
    case True
    then obtain a where a: "map_of (refs s) archive = Some a" "IsAncestor r a" by blast
    with assms ArchiveRef_noop [OF Some a, of W] Some show ?thesis by auto
  next
    case fresh: False
    show ?thesis
    proof (cases "identity W = None \<or> refRefused W (refs s) archive \<noteq> None")
      case True
      with ArchiveRef_fails [OF Some _ True] fresh assms show ?thesis by auto
    next
      case False
      then obtain st where id: "identity W = Some st" and ok: "refRefused W (refs s) archive = None"
        by auto
      show ?thesis
      proof (cases "map_of (refs s) archive")
        case None
        let ?new = "CommitObject [r] (Tree r) (''Archive '' @ hex W r) st"
        from ArchiveRef_create [OF Some None id ok] assms
        have "refs s' = AList.update archive ?new (refs s)" by auto
        then have "map_of (refs s') archive = Some ?new" by (simp add: map_of_update_same)
        moreover have "IsAncestor r ?new" by (rule IsAncestor_parent) simp
        ultimately show ?thesis using Some by blast
      next
        case arch: (Some a)
        with fresh have na: "\<not> IsAncestor r a" by simp
        let ?new = "CommitObject [a, r] (Tree r) (''Archive '' @ hex W r) st"
        from ArchiveRef_graft [OF Some arch na id ok] assms
        have "refs s' = AList.update archive ?new (refs s)" by auto
        then have "map_of (refs s') archive = Some ?new" by (simp add: map_of_update_same)
        moreover have "IsAncestor r ?new" by (rule IsAncestor_parent) simp
        ultimately show ?thesis using Some by blast
      qed
    qed
  qed
qed

theorem ArchiveRef_reachability_witness:
  "ArchiveRef exWorld exBranch exArchive exRepo =
     (None,
      \<lparr>refs = [(exBranch, exOther),
               (exArchive, CommitObject [exLocal, exOther] ''tree2'' ''Archive other'' ''me''),
               (exRemoteArchive, exBase)],
       journal = [CommitTree [exLocal, exOther] ''Archive other'' ''tree2'',
                  UpdateRef exArchive
                    (CommitObject [exLocal, exOther] ''tree2'' ''Archive other'' ''me'')
                    (Some exLocal)]\<rparr>)
   \<and> IsAncestor exOther (CommitObject [exLocal, exOther] ''tree2'' ''Archive other'' ''me'')"
proof -
  let ?s' = "\<lparr>refs = [(exBranch, exOther),
               (exArchive, CommitObject [exLocal, exOther] ''tree2'' ''Archive other'' ''me''),
               (exRemoteArchive, exBase)],
       journal = [CommitTree [exLocal, exOther] ''Archive other'' ''tree2'',
                  UpdateRef exArchive
                    (CommitObject [exLocal, exOther] ''tree2'' ''Archive other'' ''me'')
                    (Some exLocal)]\<rparr>"
  have run: "ArchiveRef exWorld exBranch exArchive exRepo = (None, ?s')"
    by (simp add: ArchiveRef_def GetCommitHash_def repo_GetCommitDetails_def commit_tree_def
        update_ref_def Let_def ex_defs)
  from ArchiveRef_reachability [OF run]
  obtain r a where "map_of (refs exRepo) exBranch = Some r" "map_of (refs ?s') exArchive = Some a"
    "IsAncestor r a" by blast
  then have "IsAncestor exOther (CommitObject [exLocal, exOther] ''tree2'' ''Archive other'' ''me'')"
    by (simp add: exRepo_def exBranch_def exArchive_def)
  with run show ?thesis by blast
qed

subsection \<open>mergeArchives\<close>

lemma mergeArchives_fails:
  assumes "map_of (refs s) remoteArchive = Some r"
    and "refRefused W (refs s) archive \<noteq> None
         \<or> (\<exists>a. map_of (refs s) archive = Some a \<and> \<not> IsAncestor a r \<and> identity W = None)"
  shows "\<exists>e s'. mergeArchives W archive remoteArchive s = (Some e, s') \<and> refs s' = refs s"
proof (cases "identity W")
  case None
  with assms show ?thesis
    by (cases "map_of (refs s) archive")
       (auto simp: mergeArchives_def HasRef_def GetCommitHash_def repo_GetCommitDetails_def
        commit_tree_def update_ref_def Let_def)
next
  case (Some st)
  with assms(2) obtain e where "refRefused W (refs s) archive = Some e" by auto
  with assms(1) Some show ?thesis
    by (cases "map_of (refs s) archive")
       (auto simp: mergeArchives_def HasRef_def GetCommitHash_def repo_GetCommitDetails_def
        commit_tree_def update_ref_def Let_def)
qed

text \<open>
  C1, as the code has it. \<open>mergeArchives\<close> has three cases for a remote archive that exists,
  where git writes the archive ref: a local archive that does not exist is created at the
  remote commit; a local archive whose commit is an ancestor of the remote commit (or is
  that commit) is moved to the remote commit, with its commit as the expected old value;
  in every other case, a remote commit that is a strict ancestor of the local one
  included, a commit with the parents \<open>[remote, local]\<close> and the remote commit's tree is
  created, where git can create commits, and the archive is updated to it. A remote
  archive that does not exist changes nothing. Where git refuses to write the archive ref,
  or cannot create the merge commit, \<open>mergeArchives\<close> returns the error and the refs are as
  they were.
\<close>

theorem mergeArchives_case_analysis:
  "(map_of (refs s) remoteArchive = None \<longrightarrow> mergeArchives W archive remoteArchive s = (None, s))
   \<and> (\<forall>r. map_of (refs s) remoteArchive = Some r \<and> map_of (refs s) archive = None
           \<and> refRefused W (refs s) archive = None \<longrightarrow>
        mergeArchives W archive remoteArchive s =
          (None, s\<lparr>refs := AList.update archive r (refs s),
                   journal := journal s @ [UpdateRef archive r None]\<rparr>))
   \<and> (\<forall>r a. map_of (refs s) remoteArchive = Some r \<and> map_of (refs s) archive = Some a
           \<and> IsAncestor a r \<and> refRefused W (refs s) archive = None \<longrightarrow>
        mergeArchives W archive remoteArchive s =
          (None, s\<lparr>refs := AList.update archive r (refs s),
                   journal := journal s @ [UpdateRef archive r (Some a)]\<rparr>))
   \<and> (\<forall>r a st. map_of (refs s) remoteArchive = Some r \<and> map_of (refs s) archive = Some a
           \<and> \<not> IsAncestor a r \<and> identity W = Some st
           \<and> refRefused W (refs s) archive = None \<longrightarrow>
        mergeArchives W archive remoteArchive s =
          (None, s\<lparr>refs := AList.update archive
                            (CommitObject [r, a] (Tree r) ''Merge local and remote archives'' st)
                            (refs s),
                   journal := journal s @
                     [CommitTree [r, a] ''Merge local and remote archives'' (Tree r),
                      UpdateRef archive
                        (CommitObject [r, a] (Tree r) ''Merge local and remote archives'' st)
                        (Some a)]\<rparr>))
   \<and> (\<forall>r. map_of (refs s) remoteArchive = Some r
           \<and> (refRefused W (refs s) archive \<noteq> None
                \<or> (\<exists>a. map_of (refs s) archive = Some a \<and> \<not> IsAncestor a r \<and> identity W = None))
           \<longrightarrow>
        (\<exists>e s'. mergeArchives W archive remoteArchive s = (Some e, s') \<and> refs s' = refs s))"
proof -
  have ok: "(map_of (refs s) remoteArchive = None \<longrightarrow> mergeArchives W archive remoteArchive s = (None, s))
   \<and> (\<forall>r. map_of (refs s) remoteArchive = Some r \<and> map_of (refs s) archive = None
           \<and> refRefused W (refs s) archive = None \<longrightarrow>
        mergeArchives W archive remoteArchive s =
          (None, s\<lparr>refs := AList.update archive r (refs s),
                   journal := journal s @ [UpdateRef archive r None]\<rparr>))
   \<and> (\<forall>r a. map_of (refs s) remoteArchive = Some r \<and> map_of (refs s) archive = Some a
           \<and> IsAncestor a r \<and> refRefused W (refs s) archive = None \<longrightarrow>
        mergeArchives W archive remoteArchive s =
          (None, s\<lparr>refs := AList.update archive r (refs s),
                   journal := journal s @ [UpdateRef archive r (Some a)]\<rparr>))
   \<and> (\<forall>r a st. map_of (refs s) remoteArchive = Some r \<and> map_of (refs s) archive = Some a
           \<and> \<not> IsAncestor a r \<and> identity W = Some st
           \<and> refRefused W (refs s) archive = None \<longrightarrow>
        mergeArchives W archive remoteArchive s =
          (None, s\<lparr>refs := AList.update archive
                            (CommitObject [r, a] (Tree r) ''Merge local and remote archives'' st)
                            (refs s),
                   journal := journal s @
                     [CommitTree [r, a] ''Merge local and remote archives'' (Tree r),
                      UpdateRef archive
                        (CommitObject [r, a] (Tree r) ''Merge local and remote archives'' st)
                        (Some a)]\<rparr>))"
    by (simp add: mergeArchives_def HasRef_def GetCommitHash_def repo_GetCommitDetails_def
        commit_tree_def update_ref_def Let_def)
  with mergeArchives_fails [of s remoteArchive _ W archive] show ?thesis by blast
qed

theorem mergeArchives_case_analysis_witness:
  "mergeArchives exWorld exArchive exBranch exRepo =
     (None,
      \<lparr>refs = [(exBranch, exOther),
               (exArchive,
                CommitObject [exOther, exLocal] ''tree2'' ''Merge local and remote archives'' ''me''),
               (exRemoteArchive, exBase)],
       journal = [CommitTree [exOther, exLocal] ''Merge local and remote archives'' ''tree2'',
                  UpdateRef exArchive
                    (CommitObject [exOther, exLocal] ''tree2'' ''Merge local and remote archives'' ''me'')
                    (Some exLocal)]\<rparr>)
   \<and> mergeArchives exWorld exRemoteArchive exArchive exRepo =
     (None,
      \<lparr>refs = [(exBranch, exOther), (exArchive, exLocal), (exRemoteArchive, exLocal)],
       journal = [UpdateRef exRemoteArchive exLocal (Some exBase)]\<rparr>)
   \<and> mergeArchives exWorld ''refs/devtools/archives/new'' exArchive exRepo =
     (None,
      \<lparr>refs = [(exBranch, exOther), (exArchive, exLocal), (exRemoteArchive, exBase),
               (''refs/devtools/archives/new'', exLocal)],
       journal = [UpdateRef ''refs/devtools/archives/new'' exLocal None]\<rparr>)
   \<and> mergeArchives exWorld exArchive ''refs/remoteDevtools/origin/archives/none'' exRepo =
     (None, exRepo)
   \<and> (\<exists>e s'. mergeArchives exWorld ''refs/devtools/archives/reviews/sub'' exRemoteArchive exRepo
                 = (Some e, s')
          \<and> refs s' = refs exRepo)"
proof -
  have id: "identity exWorld = Some ''me''" by (simp add: exWorld_def)
  have r: "map_of (refs exRepo) exBranch = Some exOther"
    and b: "map_of (refs exRepo) exRemoteArchive = Some exBase"
    and a: "map_of (refs exRepo) exArchive = Some exLocal"
    and n: "map_of (refs exRepo) ''refs/devtools/archives/new'' = None"
    and m: "map_of (refs exRepo) ''refs/remoteDevtools/origin/archives/none'' = None"
    by (simp_all add: exRepo_def exBranch_def exArchive_def exRemoteArchive_def)
  have w: "refRefused exWorld (refs exRepo) exArchive = None"
    "refRefused exWorld (refs exRepo) exRemoteArchive = None"
    "refRefused exWorld (refs exRepo) ''refs/devtools/archives/new'' = None"
    "refRefused exWorld (refs exRepo) ''refs/devtools/archives/reviews/sub'' \<noteq> None"
    by (simp_all add: ex_defs)
  have no: "\<not> IsAncestor exLocal exOther" and yes: "IsAncestor exBase exLocal"
    by (simp_all add: exBase_def exLocal_def exOther_def)
  have t: "Tree exOther = ''tree2''" by (simp add: exOther_def)
  have 1: "mergeArchives exWorld exArchive exBranch exRepo =
          (None, exRepo\<lparr>refs := AList.update exArchive
                            (CommitObject [exOther, exLocal] (Tree exOther) ''Merge local and remote archives'' ''me'')
                            (refs exRepo),
                   journal := journal exRepo @
                     [CommitTree [exOther, exLocal] ''Merge local and remote archives'' (Tree exOther),
                      UpdateRef exArchive
                        (CommitObject [exOther, exLocal] (Tree exOther) ''Merge local and remote archives'' ''me'')
                        (Some exLocal)]\<rparr>)"
    using mergeArchives_case_analysis [of exRepo exBranch exWorld exArchive] r a no id w(1) by blast
  have 2: "mergeArchives exWorld exRemoteArchive exArchive exRepo =
          (None, exRepo\<lparr>refs := AList.update exRemoteArchive exLocal (refs exRepo),
                   journal := journal exRepo @ [UpdateRef exRemoteArchive exLocal (Some exBase)]\<rparr>)"
    using mergeArchives_case_analysis [of exRepo exArchive exWorld exRemoteArchive] a b yes w(2)
    by blast
  have 3: "mergeArchives exWorld ''refs/devtools/archives/new'' exArchive exRepo =
          (None, exRepo\<lparr>refs := AList.update ''refs/devtools/archives/new'' exLocal (refs exRepo),
                   journal := journal exRepo @ [UpdateRef ''refs/devtools/archives/new'' exLocal None]\<rparr>)"
    using mergeArchives_case_analysis [of exRepo exArchive exWorld "''refs/devtools/archives/new''"]
      a n w(3)
    by blast
  have 4: "mergeArchives exWorld exArchive ''refs/remoteDevtools/origin/archives/none'' exRepo =
     (None, exRepo)"
    using mergeArchives_case_analysis [of exRepo "''refs/remoteDevtools/origin/archives/none''" exWorld exArchive] m
    by blast
  have 5: "\<exists>e s'. mergeArchives exWorld ''refs/devtools/archives/reviews/sub'' exRemoteArchive exRepo
                 = (Some e, s') \<and> refs s' = refs exRepo"
    using mergeArchives_case_analysis [of exRepo exRemoteArchive exWorld "''refs/devtools/archives/reviews/sub''"]
      b w(4) by blast
  have u1: "AList.update exArchive c (refs exRepo) =
      [(exBranch, exOther), (exArchive, c), (exRemoteArchive, exBase)]" for c
    by (simp add: exRepo_def exBranch_def exArchive_def exRemoteArchive_def)
  have u2: "AList.update exRemoteArchive c (refs exRepo) =
      [(exBranch, exOther), (exArchive, exLocal), (exRemoteArchive, c)]" for c
    by (simp add: exRepo_def exBranch_def exArchive_def exRemoteArchive_def)
  have u3: "AList.update ''refs/devtools/archives/new'' c (refs exRepo) =
      [(exBranch, exOther), (exArchive, exLocal), (exRemoteArchive, exBase),
       (''refs/devtools/archives/new'', c)]" for c
    by (simp add: exRepo_def exBranch_def exArchive_def exRemoteArchive_def)
  have j: "journal exRepo = []" by (simp add: exRepo_def)
  show ?thesis
    using 5 unfolding 1 2 3 4 t u1 u2 u3 j by (simp add: exRepo_def)
qed

text \<open>
  C1 as stated fails: the remote commit \<open>exBase\<close> is an ancestor of the local archive's
  commit \<open>exLocal\<close>, and \<open>mergeArchives\<close> does not leave the archive alone but moves it to a new
  merge commit of the two.
\<close>

theorem mergeArchives_noop_counterexample:
  "map_of (refs exRepo) exArchive = Some exLocal
   \<and> map_of (refs exRepo) exRemoteArchive = Some exBase
   \<and> IsAncestor exBase exLocal
   \<and> mergeArchives exWorld exArchive exRemoteArchive exRepo =
     (None,
      \<lparr>refs = [(exBranch, exOther),
               (exArchive,
                CommitObject [exBase, exLocal] ''tree0'' ''Merge local and remote archives'' ''me''),
               (exRemoteArchive, exBase)],
       journal = [CommitTree [exBase, exLocal] ''Merge local and remote archives'' ''tree0'',
                  UpdateRef exArchive
                    (CommitObject [exBase, exLocal] ''tree0'' ''Merge local and remote archives'' ''me'')
                    (Some exLocal)]\<rparr>)"
  by (simp add: mergeArchives_def HasRef_def GetCommitHash_def repo_GetCommitDetails_def
      commit_tree_def update_ref_def Let_def ex_defs)

subsection \<open>FetchAndReturnNewReviewHashes\<close>

lemmas pull_defs = exPullWorld_def exPullRepo_def exNotes1_def exNotes2_def exNotesRef_def
  exRemoteNotesRef_def exFetched_def exDiffNames_def exFetch_def ex_defs

lemmas sync_defs = FetchAndReturnNewReviewHashes_def getRefHashes_def show_ref_def
  getRemoteNotesRef_def getRemoteDevtoolsRef_def getLocalNotesRef_def getLocalDevtoolsRef_def
  TrimPrefix_def TrimSuffix_def notesRefPrefix_def devtoolsRefPrefix_def
  remoteDevtoolsRefPrefix_def repo_Fetch_def suffix_to_prefix Let_def

lemma set_fold_insert: "set (fold List.insert xs acc) = set xs \<union> set acc"
  by (induction xs arbitrary: acc) auto

lemma split_char_not_Nil: "split_char sep s \<noteq> []"
  by (induction s) auto

lemma split_char_no_sep: "sep \<notin> set s \<Longrightarrow> split_char sep s = [s]"
  by (induction s) auto

lemma split_char_append:
  "sep \<notin> set a \<Longrightarrow> split_char sep (a @ sep # b) = a # split_char sep b"
  by (induction a) auto

lemma split_joinLines:
  assumes "names \<noteq> []" and "\<forall>name \<in> set names. CHR ''\<newline>'' \<notin> set name"
  shows "split_char CHR ''\<newline>'' (stripSlashes (joinLines names)) = map stripSlashes names"
  using assms
proof (induction names rule: joinLines.induct)
  case 1
  then show ?case by simp
next
  case (2 name)
  then show ?case by (simp add: stripSlashes_def split_char_no_sep)
next
  case (3 name nxt names)
  have "CHR ''\<newline>'' \<notin> set (stripSlashes name)" using 3(3) by (simp add: stripSlashes_def)
  from split_char_append [OF this, of "stripSlashes (joinLines (nxt # names))"] 3
  show ?case by (simp add: stripSlashes_def)
qed

lemma newReviews_loop_set:
  "newReviews_loop W prior updated acc = Inr ids \<Longrightarrow>
   (\<forall>p \<in> changedRefs prior updated. \<exists>notes. listingOf W prior p = Inr notes)
   \<and> set ids = set acc \<union> (\<Union>p \<in> changedRefs prior updated.
                               case listingOf W prior p of Inl err \<Rightarrow> {} | Inr notes \<Rightarrow> reviewsOfListing notes)"
proof (induction updated arbitrary: acc)
  case Nil
  then show ?case by (simp add: changedRefs_def)
next
  case (Cons p rest)
  obtain ref h where p: "p = (ref, h)" by (cases p)
  have split: "changedRefs prior (p # rest) =
      (if map_of prior ref = Some h then {} else {p}) \<union> changedRefs prior rest"
    using p by (auto simp: changedRefs_def)
  show ?case
  proof (cases "map_of prior ref = Some h")
    case True
    with Cons.prems p have "newReviews_loop W prior rest acc = Inr ids" by simp
    from Cons.IH [OF this] split True show ?thesis by simp
  next
    case False
    with Cons.prems p obtain out where n: "listingOf W prior p = Inr out"
      by (auto simp: listingOf_def split: sum.splits option.splits)
    with Cons.prems p False
    have "newReviews_loop W prior rest
            (fold List.insert (split_char CHR ''\<newline>'' (stripSlashes out)) acc) = Inr ids"
      by (auto simp: listingOf_def stripSlashes_def Let_def split: option.splits)
    from Cons.IH [OF this] split False n show ?thesis
      by (auto simp: set_fold_insert reviewsOfListing_def)
  qed
qed

lemma reviewsOfListing_joinLines:
  assumes "names \<noteq> []" and "\<forall>name \<in> set names. CHR ''\<newline>'' \<notin> set name"
  shows "reviewsOfListing (joinLines names) = stripSlashes ` set names"
  using split_joinLines [OF assms] by (simp add: reviewsOfListing_def)

lemma reviewsOfListing_empty: "reviewsOfListing [] = {[]}"
  by (simp add: reviewsOfListing_def stripSlashes_def)

text \<open>
  The ids of a successful \<open>FetchAndReturnNewReviewHashes\<close>: the union, over the remote notes
  refs whose hash differs from the one before the fetch, of the lines of the listing git
  prints for the ref, slashes removed. By \<open>reviewsOfListing_joinLines\<close> these are the path
  names without slashes when the listing names at least one path; by
  \<open>reviewsOfListing_empty\<close> an empty listing gives the empty id.
\<close>

theorem FetchAndReturnNewReviewHashes_ids:
  assumes "FetchAndReturnNewReviewHashes W remote notesRefPattern devtoolsRefPatterns s = (Inr ids, s1)"
  shows "\<exists>prior updated.
      getRefHashes s (getRemoteNotesRef remote notesRefPattern) = Inr prior
    \<and> getRefHashes s1 (getRemoteNotesRef remote notesRefPattern) = Inr updated
    \<and> (\<forall>p \<in> changedRefs prior updated. \<exists>out. listingOf W prior p = Inr out)
    \<and> set ids = (\<Union>p \<in> changedRefs prior updated.
                   case listingOf W prior p of Inl err \<Rightarrow> {} | Inr out \<Rightarrow> reviewsOfListing out)"
proof -
  from assms obtain prior where
    prior: "getRefHashes s (getRemoteNotesRef remote notesRefPattern) = Inr prior"
    unfolding FetchAndReturnNewReviewHashes_def
    by (auto simp: Let_def split: option.splits sum.splits)
  from assms prior obtain updated where
    updated: "getRefHashes s1 (getRemoteNotesRef remote notesRefPattern) = Inr updated"
    and loop: "newReviews_loop W prior updated [] = Inr ids"
    unfolding FetchAndReturnNewReviewHashes_def
    by (auto simp: Let_def split: option.splits sum.splits prod.splits)
  from newReviews_loop_set [OF loop] prior updated show ?thesis by auto
qed

theorem FetchAndReturnNewReviewHashes_ids_witness:
  "\<exists>prior updated.
      getRefHashes exPullRepo (getRemoteNotesRef ''origin'' ''refs/notes/devtools/*'') = Inr prior
    \<and> getRefHashes (exPullRepo\<lparr>refs := AList.update exRemoteNotesRef exNotes2 (refs exPullRepo),
                                journal := [exFetch]\<rparr>)
         (getRemoteNotesRef ''origin'' ''refs/notes/devtools/*'') = Inr updated
    \<and> (\<forall>p \<in> changedRefs prior updated. \<exists>out. listingOf exPullWorld prior p = Inr out)
    \<and> set [[]] = (\<Union>p \<in> changedRefs prior updated.
                   case listingOf exPullWorld prior p of Inl err \<Rightarrow> {} | Inr out \<Rightarrow> reviewsOfListing out)"
proof -
  have run: "FetchAndReturnNewReviewHashes exPullWorld ''origin'' ''refs/notes/devtools/*''
       [''refs/devtools/archives/*''] exPullRepo =
     (Inr [[]], exPullRepo\<lparr>refs := AList.update exRemoteNotesRef exNotes2 (refs exPullRepo),
                                journal := [exFetch]\<rparr>)"
    by (simp add: sync_defs pull_defs)
  from FetchAndReturnNewReviewHashes_ids [OF run] show ?thesis .
qed


text \<open>
  C5 at a remote notes ref whose hash changed and whose tree did not: no path differs
  between the two commits, so the union of changed path names is empty, and
  \<open>FetchAndReturnNewReviewHashes\<close> returns the empty string as the id of a new review.
\<close>

theorem FetchAndReturnNewReviewHashes_empty_listing:
  "exDiffNames exNotes1 exNotes2 = Inr []
   \<and> FetchAndReturnNewReviewHashes exPullWorld ''origin'' ''refs/notes/devtools/*''
       [''refs/devtools/archives/*''] exPullRepo =
     (Inr [[]],
      \<lparr>refs = [(exNotesRef, exNotes1), (exRemoteNotesRef, exNotes2),
               (exArchive, exLocal), (exRemoteArchive, exBase)],
       journal = [exFetch]\<rparr>)"
  by (simp add: sync_defs pull_defs)

subsection \<open>PullNotesAndArchive\<close>

lemma update_ref_journal:
  "update_ref W r new old s = (res, s') \<Longrightarrow> journal s' = journal s @ [UpdateRef r new old]"
  by (auto simp: update_ref_def Let_def split: option.splits if_splits)

lemma commit_tree_journal:
  "commit_tree W ps m t s = (res, s') \<Longrightarrow> journal s' = journal s @ [CommitTree ps m t]"
  by (auto simp: commit_tree_def Let_def split: option.splits)

lemma mergeArchives_journal:
  assumes "mergeArchives W archive remoteArchive s = (res, s')"
    and "prefix devtoolsRefPrefix archive"
  shows "\<exists>js. journal s' = journal s @ js \<and> list_all archiveWrite js"
proof -
  have u: "\<exists>js. journal t' = journal t @ js \<and> list_all archiveWrite js"
    if "update_ref W archive new old t = (r, t')" for new old t r t'
    using update_ref_journal [OF that] assms(2) by simp
  have c: "\<exists>js. journal t' = journal s @ js \<and> list_all archiveWrite js"
    if "commit_tree W ps m tr s = (Inr new, t1)" "update_ref W archive new old t1 = (r, t')"
    for ps m tr new t1 old r t'
    using commit_tree_journal [OF that(1)] update_ref_journal [OF that(2)] assms(2) by simp
  have e: "\<exists>js. journal t1 = journal s @ js \<and> list_all archiveWrite js"
    if "commit_tree W ps m tr s = (Inl err, t1)" for ps m tr err t1
    using commit_tree_journal [OF that] by simp
  show ?thesis
    using assms(1) unfolding mergeArchives_def
    by (auto split: if_splits sum.splits prod.splits dest: u c e)
qed

lemma prefix_getLocalDevtoolsRef: "prefix devtoolsRefPrefix (getLocalDevtoolsRef remote r)"
  by (simp add: getLocalDevtoolsRef_def Let_def)

lemma MergeArchives_loop_journal:
  "MergeArchives_loop W remote names s = (res, s') \<Longrightarrow>
   \<exists>js. journal s' = journal s @ js \<and> list_all archiveWrite js"
proof (induction names arbitrary: s)
  case Nil
  then show ?case by simp
next
  case (Cons remoteRef rest)
  obtain r1 s1 where m: "mergeArchives W (getLocalDevtoolsRef remote remoteRef) remoteRef s = (r1, s1)"
    by (cases "mergeArchives W (getLocalDevtoolsRef remote remoteRef) remoteRef s")
  from mergeArchives_journal [OF m prefix_getLocalDevtoolsRef]
  obtain js where js: "journal s1 = journal s @ js" "list_all archiveWrite js" by blast
  show ?case
  proof (cases r1)
    case (Some err)
    with Cons.prems m have "s' = s1" by (simp add: Let_def)
    with js show ?thesis by blast
  next
    case None
    with Cons.prems m have "MergeArchives_loop W remote rest s1 = (res, s')" by (simp add: Let_def)
    from Cons.IH [OF this] obtain ks where "journal s' = journal s1 @ ks" "list_all archiveWrite ks"
      by blast
    with js have "journal s' = journal s @ (js @ ks) \<and> list_all archiveWrite (js @ ks)" by simp
    then show ?thesis by blast
  qed
qed

lemma notes_merge_journal:
  "notes_merge W localRef remoteRef strategy s = (res, s') \<Longrightarrow>
   journal s' = journal s @ [NotesMerge localRef remoteRef strategy]"
  by (auto simp: notes_merge_def Let_def split: option.splits sum.splits)

lemma MergeNotes_loop_journal:
  "MergeNotes_loop W remote names s = (None, s') \<Longrightarrow>
   journal s' = journal s @ map (notesMergeOf remote) names"
proof (induction names arbitrary: s)
  case Nil
  then show ?case by simp
next
  case (Cons remoteRef rest)
  obtain r1 s1 where
    m: "notes_merge W (getLocalNotesRef remote remoteRef) remoteRef ''cat_sort_uniq'' s = (r1, s1)"
    by (cases "notes_merge W (getLocalNotesRef remote remoteRef) remoteRef ''cat_sort_uniq'' s")
  from notes_merge_journal [OF m]
  have j: "journal s1 = journal s @ [notesMergeOf remote remoteRef]" by (simp add: notesMergeOf_def)
  from Cons.prems m have "r1 = None" by (cases r1) (simp_all add: Let_def)
  with Cons.prems m have "MergeNotes_loop W remote rest s1 = (None, s')" by (simp add: Let_def)
  from Cons.IH [OF this] j show ?case by simp
qed

lemma FetchAndReturnNewReviewHashes_journal:
  "FetchAndReturnNewReviewHashes W remote notesRefPattern devtoolsRefPatterns s = (Inr ids, s1) \<Longrightarrow>
   journal s1 = journal s @ [pullFetch remote notesRefPattern]"
  unfolding FetchAndReturnNewReviewHashes_def repo_Fetch_def pullFetch_def
  by (auto simp: Let_def split: option.splits sum.splits prod.splits)

text \<open>
  C2, as the code has it. A pull that succeeds runs, in this order: the fetch; then
  \<open>mergeArchives\<close> for each remote archive ref that matches the pattern, which writes only
  \<open>commit-tree\<close> and \<open>update-ref\<close> commands on refs under \<open>refs/devtools/\<close>; and only then, for
  each remote notes ref that matches the pattern, one notes merge of it into the
  corresponding local notes ref with the strategy \<open>cat_sort_uniq\<close>. The archives are merged
  before the notes.
\<close>

theorem PullNotesAndArchive_order:
  assumes "PullNotesAndArchive W remote notesRefPattern archiveRefPattern s = (None, s')"
  shows "\<exists>ids s1 remoteArchives as s2 remoteNotes.
      FetchAndReturnNewReviewHashes W remote notesRefPattern [archiveRefPattern] s = (Inr ids, s1)
    \<and> journal s1 = journal s @ [pullFetch remote notesRefPattern]
    \<and> getRefHashes s1 (getRemoteDevtoolsRef remote archiveRefPattern) = Inr remoteArchives
    \<and> MergeArchives_loop W remote (map fst remoteArchives) s1 = (None, s2)
    \<and> journal s2 = journal s1 @ as \<and> list_all archiveWrite as
    \<and> getRefHashes s2 (getRemoteNotesRef remote notesRefPattern) = Inr remoteNotes
    \<and> journal s' = journal s2 @ map (notesMergeOf remote) (map fst remoteNotes)"
proof -
  obtain r1 s1 where f:
    "FetchAndReturnNewReviewHashes W remote notesRefPattern [archiveRefPattern] s = (r1, s1)"
    by (cases "FetchAndReturnNewReviewHashes W remote notesRefPattern [archiveRefPattern] s")
  obtain r2 s2 where a: "MergeArchives W remote archiveRefPattern s1 = (r2, s2)"
    by (cases "MergeArchives W remote archiveRefPattern s1")
  obtain r3 s3 where n: "MergeNotes W remote notesRefPattern s2 = (r3, s3)"
    by (cases "MergeNotes W remote notesRefPattern s2")
  from assms f obtain ids where ids: "r1 = Inr ids"
    by (cases r1) (auto simp: PullNotesAndArchive_def)
  from assms f a ids have r2: "r2 = None"
    by (cases r2) (auto simp: PullNotesAndArchive_def)
  from assms f a n ids r2 have r3: "r3 = None" and s3: "s3 = s'"
    by (cases r3; auto simp: PullNotesAndArchive_def)+
  from a r2 obtain remoteArchives where
    ra: "getRefHashes s1 (getRemoteDevtoolsRef remote archiveRefPattern) = Inr remoteArchives"
    and la: "MergeArchives_loop W remote (map fst remoteArchives) s1 = (None, s2)"
    by (auto simp: MergeArchives_def Let_def split: sum.splits)
  from n r3 s3 obtain remoteNotes where
    rn: "getRefHashes s2 (getRemoteNotesRef remote notesRefPattern) = Inr remoteNotes"
    and ln: "MergeNotes_loop W remote (map fst remoteNotes) s2 = (None, s')"
    by (auto simp: MergeNotes_def Let_def split: sum.splits)
  from MergeArchives_loop_journal [OF la] obtain as where
    as: "journal s2 = journal s1 @ as" "list_all archiveWrite as" by blast
  from f ids have j1: "journal s1 = journal s @ [pullFetch remote notesRefPattern]"
    by (simp add: FetchAndReturnNewReviewHashes_journal)
  from MergeNotes_loop_journal [OF ln]
  have j3: "journal s' = journal s2 @ map (notesMergeOf remote) (map fst remoteNotes)" .
  from f ids j1 ra la as rn j3 show ?thesis by blast
qed

theorem PullNotesAndArchive_order_witness:
  "PullNotesAndArchive exPullWorld ''origin'' ''refs/notes/devtools/*'' ''refs/devtools/archives/*''
     exPullRepo = (None, exPulled)
   \<and> (\<exists>ids s1 remoteArchives as s2 remoteNotes.
      FetchAndReturnNewReviewHashes exPullWorld ''origin'' ''refs/notes/devtools/*''
        [''refs/devtools/archives/*''] exPullRepo = (Inr ids, s1)
    \<and> journal s1 = journal exPullRepo @ [pullFetch ''origin'' ''refs/notes/devtools/*'']
    \<and> getRefHashes s1 (getRemoteDevtoolsRef ''origin'' ''refs/devtools/archives/*'') = Inr remoteArchives
    \<and> MergeArchives_loop exPullWorld ''origin'' (map fst remoteArchives) s1 = (None, s2)
    \<and> journal s2 = journal s1 @ as \<and> list_all archiveWrite as
    \<and> getRefHashes s2 (getRemoteNotesRef ''origin'' ''refs/notes/devtools/*'') = Inr remoteNotes
    \<and> journal exPulled = journal s2 @ map (notesMergeOf ''origin'') (map fst remoteNotes))"
proof -
  have run: "PullNotesAndArchive exPullWorld ''origin'' ''refs/notes/devtools/*''
               ''refs/devtools/archives/*'' exPullRepo = (None, exPulled)"
    by (simp add: PullNotesAndArchive_def MergeArchives_def MergeNotes_def mergeArchives_def
        notes_merge_def HasRef_def GetCommitHash_def repo_GetCommitDetails_def commit_tree_def
        update_ref_def sync_defs pull_defs exPulled_def)
  from PullNotesAndArchive_order [OF run] run show ?thesis by (rule conjI [rotated])
qed

text \<open>
  C2 as stated fails: in the sample pull the archive's \<open>commit-tree\<close> and \<open>update-ref\<close> come
  before the notes merge, not after it.
\<close>

theorem PullNotesAndArchive_order_counterexample:
  "journal (snd (PullNotesAndArchive exPullWorld ''origin'' ''refs/notes/devtools/*''
                   ''refs/devtools/archives/*'' exPullRepo)) =
     [exFetch,
      CommitTree [exBase, exLocal] ''Merge local and remote archives'' ''tree0'',
      UpdateRef exArchive
        (CommitObject [exBase, exLocal] ''tree0'' ''Merge local and remote archives'' ''me'')
        (Some exLocal),
      NotesMerge exNotesRef exRemoteNotesRef ''cat_sort_uniq'']"
  by (simp add: PullNotesAndArchive_def MergeArchives_def MergeNotes_def mergeArchives_def
      notes_merge_def HasRef_def GetCommitHash_def repo_GetCommitDetails_def commit_tree_def
      update_ref_def sync_defs pull_defs)

end
